theory Spec2Isabelle
  imports Complex_Main
begin

unbundle bit_operations_syntax

section \<open>JavaScript strings\<close>

text \<open>
  A JavaScript string is represented by the bytes of its UTF-8 encoding, as the export
  file holds it and as the hash function consumes it. Every character the program
  itself inspects (\<open>.\<close>, \<open>,\<close>, \<open>|\<close>, digits, line feed) is a single ASCII byte and
  never part of a longer sequence. Strings are compared, split and joined byte by byte,
  which is what JavaScript does code unit by code unit on well-formed text.
\<close>

text \<open>
  The code points that \<open>String.prototype.trim\<close> and \<open>parseFloat\<close> strip (WhiteSpace and
  LineTerminator of ECMA-262): U+0009 to U+000D, U+0020, U+00A0, U+1680, U+2000 to
  U+200A, U+2028, U+2029, U+202F, U+205F, U+3000 and U+FEFF, each in UTF-8.
\<close>

definition white_space :: "string list" where
  "white_space =
     [[CHR 0x09], [CHR 0x0A], [CHR 0x0B], [CHR 0x0C], [CHR 0x0D], [CHR 0x20],
      [CHR 0xC2, CHR 0xA0],
      [CHR 0xE1, CHR 0x9A, CHR 0x80],
      [CHR 0xE2, CHR 0x80, CHR 0x80], [CHR 0xE2, CHR 0x80, CHR 0x81],
      [CHR 0xE2, CHR 0x80, CHR 0x82], [CHR 0xE2, CHR 0x80, CHR 0x83],
      [CHR 0xE2, CHR 0x80, CHR 0x84], [CHR 0xE2, CHR 0x80, CHR 0x85],
      [CHR 0xE2, CHR 0x80, CHR 0x86], [CHR 0xE2, CHR 0x80, CHR 0x87],
      [CHR 0xE2, CHR 0x80, CHR 0x88], [CHR 0xE2, CHR 0x80, CHR 0x89],
      [CHR 0xE2, CHR 0x80, CHR 0x8A],
      [CHR 0xE2, CHR 0x80, CHR 0xA8], [CHR 0xE2, CHR 0x80, CHR 0xA9],
      [CHR 0xE2, CHR 0x80, CHR 0xAF],
      [CHR 0xE2, CHR 0x81, CHR 0x9F],
      [CHR 0xE3, CHR 0x80, CHR 0x80],
      [CHR 0xEF, CHR 0xBB, CHR 0xBF]]"

text \<open>The rest of \<open>s\<close> after one leading sequence out of \<open>ws\<close>, if it starts with one.\<close>

fun strip_one :: "string list \<Rightarrow> string \<Rightarrow> string option" where
  "strip_one [] s = None"
| "strip_one (w # ws) s =
     (if w \<noteq> [] \<and> take (length w) s = w then Some (drop (length w) s)
      else strip_one ws s)"

lemma strip_one_shorter: "strip_one ws s = Some r \<Longrightarrow> length r < length s"
proof (induction ws)
  case Nil
  then show ?case by simp
next
  case (Cons w ws)
  show ?case
  proof (cases "w \<noteq> [] \<and> take (length w) s = w")
    case True
    then have "s \<noteq> []" by auto
    moreover from True Cons.prems have "r = drop (length w) s" by simp
    ultimately show ?thesis using True by (cases s) auto
  next
    case False
    with Cons show ?thesis by auto
  qed
qed

function strip_all :: "string list \<Rightarrow> string \<Rightarrow> string" where
  "strip_all ws s = (case strip_one ws s of None \<Rightarrow> s | Some r \<Rightarrow> strip_all ws r)"
  by pat_completeness auto
termination
  by (relation "measure (\<lambda>(ws, s). length s)") (auto dest: strip_one_shorter)

declare strip_all.simps [simp del]

definition trimStart :: "string \<Rightarrow> string" where
  "trimStart s = strip_all white_space s"

definition trimEnd :: "string \<Rightarrow> string" where
  "trimEnd s = rev (strip_all (map rev white_space) (rev s))"

text \<open>\<open>String.prototype.trim\<close>\<close>

definition trim :: "string \<Rightarrow> string" where
  "trim s = trimEnd (trimStart s)"

text \<open>\<open>s.split(sep)\<close> for a separator of one ASCII character: never the empty list.\<close>

fun split :: "char \<Rightarrow> string \<Rightarrow> string list" where
  "split sep [] = [[]]"
| "split sep (c # cs) =
     (if c = sep then [] # split sep cs
      else (case split sep cs of [] \<Rightarrow> [[c]] | p # ps \<Rightarrow> (c # p) # ps))"

text \<open>\<open>parts.join(sep)\<close>\<close>

fun join :: "string \<Rightarrow> string list \<Rightarrow> string" where
  "join sep [] = []"
| "join sep [x] = x"
| "join sep (x # y # ys) = x @ sep @ join sep (y # ys)"

text \<open>\<open>s.replace(a, b)\<close> with string arguments of one character: the first occurrence only.\<close>

fun replace_first :: "char \<Rightarrow> char \<Rightarrow> string \<Rightarrow> string" where
  "replace_first a b [] = []"
| "replace_first a b (c # cs) = (if c = a then b # cs else c # replace_first a b cs)"

text \<open>
  \<open>s.length\<close> counts UTF-16 code units: one for each sequence of one to three bytes, two
  for a sequence of four bytes (lead byte from 0xF0), none for a continuation byte
  (0x80 to 0xBF).
\<close>

definition utf16_units :: "char \<Rightarrow> nat" where
  "utf16_units c =
     (if (of_char c :: nat) < 0x80 then 1
      else if (of_char c :: nat) < 0xC0 then 0
      else if (of_char c :: nat) < 0xF0 then 1
      else 2)"

definition js_length :: "string \<Rightarrow> nat" where
  "js_length s = sum_list (map utf16_units s)"

text \<open>\<open>s.padStart(n, "0")\<close>\<close>

definition padStart0 :: "nat \<Rightarrow> string \<Rightarrow> string" where
  "padStart0 n s = replicate (n - js_length s) (CHR ''0'') @ s"

text \<open>
  What \<open>String.prototype.toUpperCase\<close> does on a string of ASCII characters. On other
  characters it follows the Unicode case tables, which are no part of the program: the
  functions below take \<open>toUpperCase\<close> as a parameter, and this is its instance for the
  examples.
\<close>

definition toUpperCase_ascii :: "string \<Rightarrow> string" where
  "toUpperCase_ascii s =
     map (\<lambda>c. case map_of (zip ''abcdefghijklmnopqrstuvwxyz'' ''ABCDEFGHIJKLMNOPQRSTUVWXYZ'') c of
                None \<Rightarrow> c | Some u \<Rightarrow> u) s"

section \<open>JavaScript numbers\<close>

text \<open>
  A Number is an IEEE 754 binary64 value: NaN, an infinity, or a finite value given by
  its sign (\<open>True\<close> for negative, so that \<open>-0\<close> is \<open>Finite True 0\<close>) and its magnitude,
  an exact rational. The operations below produce representable magnitudes only.
\<close>

datatype number = NaN | Infinity bool | Finite bool rat

text \<open>The number of binary digits of \<open>n\<close>.\<close>

fun bitlen :: "nat \<Rightarrow> nat" where
  "bitlen n = (if n = 0 then 0 else bitlen (n div 2) + 1)"

declare bitlen.simps [simp del]

text \<open>\<open>pow2 e\<close> is 2 to the power \<open>e\<close>, \<open>pow10 e\<close> is 10 to the power \<open>e\<close>.\<close>

definition pow2 :: "int \<Rightarrow> rat" where
  "pow2 e = (if 0 \<le> e then 2 ^ nat e else 1 / 2 ^ nat (- e))"

definition pow10 :: "int \<Rightarrow> rat" where
  "pow10 e = (if 0 \<le> e then 10 ^ nat e else 1 / 10 ^ nat (- e))"

text \<open>For \<open>0 < q\<close>, the exponent \<open>e\<close> with \<open>2 ^ e \<le> q < 2 ^ (e + 1)\<close>.\<close>

definition binade :: "rat \<Rightarrow> int" where
  "binade q =
     (if 1 \<le> q then int (bitlen (nat \<lfloor>q\<rfloor>)) - 1
      else - int (bitlen (nat (\<lceil>1 / q\<rceil> - 1))))"

text \<open>The nearest integer, a tie going to the even one.\<close>

definition round_half_even :: "rat \<Rightarrow> int" where
  "round_half_even x =
     (if x - of_int \<lfloor>x\<rfloor> < 1 / 2 then \<lfloor>x\<rfloor>
      else if 1 / 2 < x - of_int \<lfloor>x\<rfloor> then \<lfloor>x\<rfloor> + 1
      else if even \<lfloor>x\<rfloor> then \<lfloor>x\<rfloor> else \<lfloor>x\<rfloor> + 1)"

text \<open>
  The Number value for a real magnitude \<open>q\<close> with sign \<open>neg\<close>: rounding to the nearest
  binary64 value, ties to even, with 53 significant bits, exponents from -1022 (below
  it the spacing stays \<open>2 ^ -1074\<close>), and an infinity from \<open>2 ^ 1024\<close> on.
\<close>

definition to_binary64 :: "bool \<Rightarrow> rat \<Rightarrow> number" where
  "to_binary64 neg q =
     (if q = 0 then Finite neg 0
      else if 2 ^ 1024 \<le> of_int (round_half_even (q / pow2 (max (binade q) (- 1022) - 52)))
                * pow2 (max (binade q) (- 1022) - 52)
      then Infinity neg
      else Finite neg (of_int (round_half_even (q / pow2 (max (binade q) (- 1022) - 52)))
                * pow2 (max (binade q) (- 1022) - 52)))"

text \<open>\<open>x * y\<close> (Number::multiply of ECMA-262)\<close>

fun number_mul :: "number \<Rightarrow> number \<Rightarrow> number" where
  "number_mul NaN y = NaN"
| "number_mul x NaN = NaN"
| "number_mul (Infinity s) (Infinity t) = Infinity (s \<noteq> t)"
| "number_mul (Infinity s) (Finite t q) = (if q = 0 then NaN else Infinity (s \<noteq> t))"
| "number_mul (Finite s p) (Infinity t) = (if p = 0 then NaN else Infinity (s \<noteq> t))"
| "number_mul (Finite s p) (Finite t q) = to_binary64 (s \<noteq> t) (p * q)"

text \<open>\<open>x < 0\<close>: false for NaN and for both zeros.\<close>

fun less_zero :: "number \<Rightarrow> bool" where
  "less_zero NaN = False"
| "less_zero (Infinity s) = s"
| "less_zero (Finite s q) = (s \<and> 0 < q)"

text \<open>\<open>x === y\<close>: the two zeros are equal, NaN equals nothing.\<close>

fun strict_equal :: "number \<Rightarrow> number \<Rightarrow> bool" where
  "strict_equal (Finite s p) (Finite t q) = (p = q \<and> (s = t \<or> p = 0))"
| "strict_equal (Infinity s) (Infinity t) = (s = t)"
| "strict_equal x y = False"

text \<open>The sign of a Number: 0 for both zeros (and for NaN), else -1 or 1.\<close>

fun number_sign :: "number \<Rightarrow> int" where
  "number_sign NaN = 0"
| "number_sign (Infinity s) = (if s then - 1 else 1)"
| "number_sign (Finite s q) = (if q = 0 then 0 else if s then - 1 else 1)"

text \<open>\<open>isNaN(x)\<close>\<close>

fun isNaN :: "number \<Rightarrow> bool" where
  "isNaN NaN = True"
| "isNaN x = False"

text \<open>
  \<open>Math.round(x)\<close> of ECMA-262: \<open>x\<close> itself when it is not finite or is integral; \<open>+0\<close>
  when \<open>0 < x < 0.5\<close>; \<open>-0\<close> when \<open>-0.5 \<le> x < 0\<close>; otherwise the integral Number closest
  to \<open>x\<close>, and the one closer to plus infinity in the case of a tie.
\<close>

fun math_round :: "number \<Rightarrow> number" where
  "math_round NaN = NaN"
| "math_round (Infinity s) = Infinity s"
| "math_round (Finite s q) =
     (if of_int \<lfloor>q\<rfloor> = q then Finite s q
      else if \<not> s \<and> q < 1 / 2 then Finite False 0
      else if s \<and> q \<le> 1 / 2 then Finite True 0
      else if s then Finite True (of_int \<lceil>q - 1 / 2\<rceil>)
      else Finite False (of_int \<lfloor>q + 1 / 2\<rfloor>))"

text \<open>
  \<open>parseFloat(s)\<close> of ECMA-262: leading white space is skipped, the longest prefix that is
  a StrDecimalLiteral (a sign, then \<open>Infinity\<close>, or digits with an optional fraction and
  an optional exponent) is read and the rest ignored; NaN when there is no such prefix.
  The value is the Number value for the decimal read.
\<close>

definition is_digit :: "char \<Rightarrow> bool" where
  "is_digit c = (c \<in> set ''0123456789'')"

definition digits_value :: "string \<Rightarrow> nat" where
  "digits_value ds = foldl (\<lambda>n c. 10 * n + (of_char c - 48)) 0 ds"

text \<open>
  The value of the ExponentPart at the start of \<open>s\<close>: \<open>e\<close> or \<open>E\<close>, an optional sign and
  at least one digit; 0 when there is none.
\<close>

definition exponent_part :: "string \<Rightarrow> int" where
  "exponent_part s =
     (if take 1 s = ''e'' \<or> take 1 s = ''E'' then
        (if take 1 (drop 1 s) = ''-'' \<and> takeWhile is_digit (drop 2 s) \<noteq> []
           then - int (digits_value (takeWhile is_digit (drop 2 s)))
         else if take 1 (drop 1 s) = ''+'' \<and> takeWhile is_digit (drop 2 s) \<noteq> []
           then int (digits_value (takeWhile is_digit (drop 2 s)))
         else int (digits_value (takeWhile is_digit (drop 1 s))))
      else 0)"

text \<open>The digits read (integer part \<open>ip\<close>, fraction \<open>fp\<close>) and the rest \<open>r\<close>, where an exponent may stand.\<close>

definition parse_decimal :: "bool \<Rightarrow> string \<Rightarrow> string \<Rightarrow> string \<Rightarrow> number" where
  "parse_decimal neg ip fp r =
     (if ip = [] \<and> fp = [] then NaN
      else to_binary64 neg
             (of_nat (digits_value (ip @ fp)) * pow10 (exponent_part r - int (length fp))))"

text \<open>After the integer part \<open>ip\<close>: a dot starts the fraction.\<close>

definition parse_fraction :: "bool \<Rightarrow> string \<Rightarrow> string \<Rightarrow> number" where
  "parse_fraction neg ip r =
     (if take 1 r = ''.''
      then parse_decimal neg ip (takeWhile is_digit (drop 1 r)) (dropWhile is_digit (drop 1 r))
      else parse_decimal neg ip [] r)"

text \<open>After the sign.\<close>

definition parse_unsigned :: "bool \<Rightarrow> string \<Rightarrow> number" where
  "parse_unsigned neg u =
     (if take 8 u = ''Infinity'' then Infinity neg
      else parse_fraction neg (takeWhile is_digit u) (dropWhile is_digit u))"

text \<open>After the leading white space.\<close>

definition parse_signed :: "string \<Rightarrow> number" where
  "parse_signed t =
     (if take 1 t = ''-'' then parse_unsigned True (drop 1 t)
      else if take 1 t = ''+'' then parse_unsigned False (drop 1 t)
      else parse_unsigned False t)"

definition parseFloat :: "string \<Rightarrow> number" where
  "parseFloat s = parse_signed (trimStart s)"

text \<open>
  The string of a Number, as a template literal inserts it (Number::toString of ECMA-262
  with radix 10). For a finite \<open>x > 0\<close> it takes integers \<open>n\<close>, \<open>k\<close> and \<open>s\<close> with
  \<open>10 ^ (k - 1) \<le> s < 10 ^ k\<close>, the Number value for \<open>s * 10 ^ (n - k)\<close> being \<open>x\<close> and \<open>k\<close> as
  small as possible (\<open>s\<close> as close to \<open>x\<close> as possible, as V8 chooses); 17 digits always
  suffice.
\<close>

definition digit_char :: "nat \<Rightarrow> char" where
  "digit_char d = ''0123456789'' ! d"

fun nat_digits :: "nat \<Rightarrow> string" where
  "nat_digits n =
     (if n < 10 then [digit_char n] else nat_digits (n div 10) @ [digit_char (n mod 10)])"

declare nat_digits.simps [simp del]

text \<open>For \<open>0 < q\<close>, the \<open>n\<close> with \<open>10 ^ (n - 1) \<le> q < 10 ^ n\<close>.\<close>

definition decade :: "rat \<Rightarrow> int" where
  "decade q =
     (if 1 \<le> q then int (length (nat_digits (nat \<lfloor>q\<rfloor>)))
      else 1 - int (length (nat_digits (nat (\<lceil>1 / q\<rceil> - 1)))))"

text \<open>
  The digits \<open>s\<close> (with \<open>n\<close>) of \<open>k\<close> places for \<open>q\<close>, if there are any: \<open>lo\<close> is \<open>q\<close> cut
  after \<open>k\<close> places, \<open>u\<close> the value of the last place, and the candidates are \<open>lo\<close> and
  \<open>lo + 1\<close>.
\<close>

definition digits_choose :: "rat \<Rightarrow> nat \<Rightarrow> int \<Rightarrow> rat \<Rightarrow> nat \<Rightarrow> (nat \<times> int) option" where
  "digits_choose q k n u lo =
     (if to_binary64 False (of_nat (lo + 1) * u) = Finite False q \<and>
         (of_nat (lo + 1) * u - q < q - of_nat lo * u \<or>
          to_binary64 False (of_nat lo * u) \<noteq> Finite False q)
      then Some (if lo + 1 = 10 ^ k then (10 ^ (k - 1), n + 1) else (lo + 1, n))
      else if to_binary64 False (of_nat lo * u) = Finite False q then Some (lo, n)
      else None)"

definition digits_cut :: "rat \<Rightarrow> nat \<Rightarrow> int \<Rightarrow> rat \<Rightarrow> (nat \<times> int) option" where
  "digits_cut q k n u = digits_choose q k n u (nat \<lfloor>q / u\<rfloor>)"

definition digits_at :: "rat \<Rightarrow> nat \<Rightarrow> int \<Rightarrow> (nat \<times> int) option" where
  "digits_at q k n = digits_cut q k n (pow10 (n - int k))"

definition digits_k :: "rat \<Rightarrow> nat \<Rightarrow> (nat \<times> int) option" where
  "digits_k q k = digits_at q k (decade q)"

fun shortest_digits :: "rat \<Rightarrow> nat list \<Rightarrow> nat \<times> int" where
  "shortest_digits q [] = (nat \<lfloor>q / pow10 (decade q - 17)\<rfloor>, decade q)"
| "shortest_digits q (k # ks) =
     (case digits_k q k of None \<Rightarrow> shortest_digits q ks | Some r \<Rightarrow> r)"

text \<open>The string for the digits \<open>ds\<close> of \<open>s\<close> and \<open>n\<close>: decimal for \<open>n\<close> from -5 to 21, else with an exponent.\<close>

definition format_digits :: "string \<Rightarrow> int \<Rightarrow> string" where
  "format_digits ds n =
     (if - 5 \<le> n \<and> n \<le> 21 then
        (if int (length ds) \<le> n then ds @ replicate (nat n - length ds) (CHR ''0'')
         else if 0 < n then take (nat n) ds @ ''.'' @ drop (nat n) ds
         else ''0.'' @ replicate (nat (- n)) (CHR ''0'') @ ds)
      else
        (if length ds = 1 then ds else take 1 ds @ ''.'' @ drop 1 ds)
        @ ''e'' @ (if n < 0 then ''-'' else ''+'') @ nat_digits (nat \<bar>n - 1\<bar>))"

definition positive_to_string :: "rat \<Rightarrow> string" where
  "positive_to_string q =
     (case shortest_digits q [1, 2, 3, 4, 5, 6, 7, 8, 9, 10, 11, 12, 13, 14, 15, 16, 17] of
        (s, n) \<Rightarrow> format_digits (nat_digits s) n)"

fun number_to_string :: "number \<Rightarrow> string" where
  "number_to_string NaN = ''NaN''"
| "number_to_string (Infinity s) = (if s then ''-Infinity'' else ''Infinity'')"
| "number_to_string (Finite s q) =
     (if q = 0 then ''0'' else (if s then ''-'' else []) @ positive_to_string q)"

section \<open>SHA-256\<close>

text \<open>
  \<open>createHash("sha256").update(raw).digest("hex")\<close> of \<open>node:crypto\<close>: the SHA-256 digest
  (FIPS 180-4) of the UTF-8 bytes of \<open>raw\<close>, as 64 lower-case hexadecimal digits. Words
  are numbers below \<open>2 ^ 32\<close>, with the wrap-around written out as \<open>take_bit 32\<close>; the
  round constants and the initial hash value are written in decimal.
\<close>

definition sha256_K :: "nat list" where
  "sha256_K =
     [1116352408, 1899447441, 3049323471, 3921009573, 961987163, 1508970993,
      2453635748, 2870763221, 3624381080, 310598401, 607225278, 1426881987,
      1925078388, 2162078206, 2614888103, 3248222580, 3835390401, 4022224774,
      264347078, 604807628, 770255983, 1249150122, 1555081692, 1996064986,
      2554220882, 2821834349, 2952996808, 3210313671, 3336571891, 3584528711,
      113926993, 338241895, 666307205, 773529912, 1294757372, 1396182291,
      1695183700, 1986661051, 2177026350, 2456956037, 2730485921, 2820302411,
      3259730800, 3345764771, 3516065817, 3600352804, 4094571909, 275423344,
      430227734, 506948616, 659060556, 883997877, 958139571, 1322822218, 1537002063,
      1747873779, 1955562222, 2024104815, 2227730452, 2361852424, 2428436474,
      2756734187, 3204031479, 3329325298]"

definition sha256_H0 :: "nat list" where
  "sha256_H0 =
     [1779033703, 3144134277, 1013904242, 2773480762, 1359893119, 2600822924,
      528734635, 1541459225]"

definition rotr :: "nat \<Rightarrow> nat \<Rightarrow> nat" where
  "rotr n x = drop_bit n x OR take_bit 32 (push_bit (32 - n) x)"

definition ssig0 :: "nat \<Rightarrow> nat" where
  "ssig0 x = rotr 7 x XOR rotr 18 x XOR drop_bit 3 x"

definition ssig1 :: "nat \<Rightarrow> nat" where
  "ssig1 x = rotr 17 x XOR rotr 19 x XOR drop_bit 10 x"

definition bsig0 :: "nat \<Rightarrow> nat" where
  "bsig0 x = rotr 2 x XOR rotr 13 x XOR rotr 22 x"

definition bsig1 :: "nat \<Rightarrow> nat" where
  "bsig1 x = rotr 6 x XOR rotr 11 x XOR rotr 25 x"

definition sha_ch :: "nat \<Rightarrow> nat \<Rightarrow> nat \<Rightarrow> nat" where
  "sha_ch x y z = (x AND y) XOR ((x XOR (2 ^ 32 - 1)) AND z)"

definition sha_maj :: "nat \<Rightarrow> nat \<Rightarrow> nat \<Rightarrow> nat" where
  "sha_maj x y z = (x AND y) XOR (x AND z) XOR (y AND z)"

text \<open>The big-endian words of a byte sequence.\<close>

fun be_words :: "nat list \<Rightarrow> nat list" where
  "be_words (a # b # c # d # r) = (((a * 256 + b) * 256 + c) * 256 + d) # be_words r"
| "be_words r = []"

text \<open>
  The message schedule is kept as a window of 16 words, \<open>W t\<close> first: the next word is
  \<open>W (t + 16) = ssig1 (W (t + 14)) + W (t + 9) + ssig0 (W (t + 1)) + W t\<close>.
\<close>

definition next_word :: "nat list \<Rightarrow> nat" where
  "next_word w = take_bit 32 (ssig1 (w ! 14) + w ! 9 + ssig0 (w ! 1) + w ! 0)"

fun round_step :: "nat list \<Rightarrow> nat \<Rightarrow> nat \<Rightarrow> nat list" where
  "round_step [a, b, c, d, e, f, g, h] k w =
     [take_bit 32 (h + bsig1 e + sha_ch e f g + k + w + (bsig0 a + sha_maj a b c)),
      a, b, c,
      take_bit 32 (d + (h + bsig1 e + sha_ch e f g + k + w)),
      e, f, g]"
| "round_step s k w = s"

fun rounds :: "nat list \<Rightarrow> nat list \<Rightarrow> nat list \<Rightarrow> nat list" where
  "rounds [] w s = s"
| "rounds (k # ks) w s = rounds ks (tl w @ [next_word w]) (round_step s k (hd w))"

definition compress :: "nat list \<Rightarrow> nat list \<Rightarrow> nat list" where
  "compress h block = map2 (\<lambda>x y. take_bit 32 (x + y)) h (rounds sha256_K block h)"

fun blocks :: "nat list \<Rightarrow> nat list list" where
  "blocks [] = []"
| "blocks (x # xs) = take 16 (x # xs) # blocks (drop 16 (x # xs))"

definition be_bytes8 :: "nat \<Rightarrow> nat list" where
  "be_bytes8 n = map (\<lambda>i. (n div 256 ^ i) mod 256) [7, 6, 5, 4, 3, 2, 1, 0]"

text \<open>Padding: the byte 0x80, zeros up to 56 modulo 64, and the length in bits on 8 bytes.\<close>

definition sha256_pad :: "nat list \<Rightarrow> nat list" where
  "sha256_pad m =
     m @ [128] @ replicate ((119 - length m mod 64) mod 64) 0 @ be_bytes8 (8 * length m)"

definition sha256 :: "nat list \<Rightarrow> nat list" where
  "sha256 m = foldl compress sha256_H0 (blocks (be_words (sha256_pad m)))"

definition hex_digit :: "nat \<Rightarrow> char" where
  "hex_digit n = ''0123456789abcdef'' ! n"

definition hex32 :: "nat \<Rightarrow> string" where
  "hex32 w = map (\<lambda>i. hex_digit ((w div 16 ^ i) mod 16)) [7, 6, 5, 4, 3, 2, 1, 0]"

definition sha256_hex :: "string \<Rightarrow> string" where
  "sha256_hex s = concat (map hex32 (sha256 (map of_char s)))"

section \<open>The program\<close>

text \<open>
  A row as the CSV parser returns it: the value of each column of the export, absent
  (\<open>None\<close>, \<open>undefined\<close> in the program) when the row has no such key. The columns
  of the payer (\<open>Zahlungspflichtige*r\<close>), of the recipient (\<open>Zahlungsempfaenger*in\<close>, with
  a-umlaut), of the amount (\<open>Betrag\<close>, with the euro sign in brackets) and of the creditor
  id (\<open>Glaeubiger-ID\<close>, with a-umlaut) are the fields \<open>Zahlungspflichtiger\<close>,
  \<open>Zahlungsempfaenger\<close>, \<open>Betrag\<close> and \<open>Glaeubiger_ID\<close>.
\<close>

record DkbRawRow =
  Buchungsdatum :: "string option"
  Wertstellung :: "string option"
  Status :: "string option"
  Zahlungspflichtiger :: "string option"
  Zahlungsempfaenger :: "string option"
  Verwendungszweck :: "string option"
  Umsatztyp :: "string option"
  IBAN :: "string option"
  Betrag :: "string option"
  Glaeubiger_ID :: "string option"
  Mandatsreferenz :: "string option"
  Kundenreferenz :: "string option"

record ActualTransaction =
  account :: string
  date :: string
  amount :: number
  payee_name :: string
  imported_payee :: string
  notes' :: string
  imported_id :: string
  cleared :: bool

text \<open>A thrown \<open>Error\<close> with its message.\<close>

datatype error = Error string

text \<open>\<open>a || b\<close> for a field \<open>a\<close> and a string \<open>b\<close>: \<open>b\<close> when \<open>a\<close> is \<open>undefined\<close> or empty.\<close>

fun or_else :: "string option \<Rightarrow> string \<Rightarrow> string" where
  "or_else None b = b"
| "or_else (Some a) b = (if a = [] then b else a)"

text \<open>The check of \<open>parseGermanDecimal\<close> on the parsed number \<open>num\<close>: NaN throws.\<close>

definition amount_or_error :: "string \<Rightarrow> number \<Rightarrow> error + number" where
  "amount_or_error v num =
     (if isNaN num
      then Inl (Error (''Cannot parse amount: '' @ [CHR 0x22] @ v @ [CHR 0x22]))
      else Inr num)"

definition parseGermanDecimal :: "string \<Rightarrow> error + number" where
  "parseGermanDecimal v =
     amount_or_error v
       (parseFloat (replace_first (CHR '','') (CHR ''.'') (filter (\<lambda>c. c \<noteq> CHR ''.'') v)))"

definition parseGermanDate :: "string \<Rightarrow> error + string" where
  "parseGermanDate v =
     (case split (CHR ''.'') v of
        [dd, mm, yy] \<Rightarrow>
          Inr ((if js_length yy = 2 then ''20'' @ yy else yy)
               @ ''-'' @ padStart0 2 mm @ ''-'' @ padStart0 2 dd)
      | parts \<Rightarrow> Inl (Error (''Cannot parse date: '' @ [CHR 0x22] @ v @ [CHR 0x22])))"

definition amountToInteger :: "number \<Rightarrow> number" where
  "amountToInteger v = math_round (number_mul v (Finite False 100))"

text \<open>
  \<open>generateImportedId\<close> has four parameters. Its call passes a fifth argument, the trimmed
  \<open>Kundenreferenz\<close>, which JavaScript evaluates and drops: it is no argument here.
\<close>

definition generateImportedId :: "string \<Rightarrow> number \<Rightarrow> string \<Rightarrow> string \<Rightarrow> string" where
  "generateImportedId date_str amount_num payee notes_str =
     take 32 (sha256_hex
       (date_str @ ''|'' @ number_to_string amount_num @ ''|'' @ payee @ ''|'' @ notes_str))"

text \<open>
  \<open>parseDkbCsv\<close> reads the file and hands the text after its first four lines to \<open>parse\<close>
  of the library \<open>csv-parse/sync\<close>. The files (what \<open>readFileSync\<close> finds under a path, an
  error being thrown where there is none) and the library's \<open>parse\<close> with the options of
  the call are no part of the program: they are parameters, \<open>parse\<close> returning its rows
  or the error it throws.
\<close>

definition parseDkbCsv ::
  "(string \<rightharpoonup> string) \<Rightarrow> (string \<Rightarrow> error + 'row list) \<Rightarrow> string \<Rightarrow> error + 'row list" where
  "parseDkbCsv files parse filePath =
     (case files filePath of
        None \<Rightarrow>
          Inl (Error (''ENOENT: no such file or directory, open '' @ [CHR 0x27] @ filePath
                 @ [CHR 0x27]))
      | Some content \<Rightarrow> parse (join [CHR 0x0A] (drop 4 (split (CHR 0x0A) content))))"

text \<open>
  What \<open>parse\<close> of \<open>csv-parse/sync\<close> returns for a text without any record, that is an
  empty text or empty lines only (which the option \<open>skip_empty_lines\<close> drops): no row.
  This instance of the parameter serves the examples; it says nothing of other texts.
\<close>

definition parse_blank_text :: "string \<Rightarrow> error + DkbRawRow list" where
  "parse_blank_text text =
     (if set text \<subseteq> {CHR 0x0A} then Inr []
      else Inl (Error ''a text with records, which this instance does not cover''))"

definition getOpposingName :: "DkbRawRow \<Rightarrow> number \<Rightarrow> string" where
  "getOpposingName row amount_num =
     (if less_zero amount_num
      then or_else (Zahlungsempfaenger row) (or_else (Zahlungspflichtiger row) [])
      else or_else (Zahlungspflichtiger row) (or_else (Zahlungsempfaenger row) []))"

text \<open>
  The constants of the loop body of \<open>transformToActualTransactions\<close>, each as a function of
  what it is computed from. \<open>toUpperCase\<close> stands for \<open>String.prototype.toUpperCase\<close>.
\<close>

definition counterpartIban :: "DkbRawRow \<Rightarrow> string" where
  "counterpartIban row = (case IBAN row of None \<Rightarrow> [] | Some s \<Rightarrow> trim s)"

definition isOwnAccount :: "DkbRawRow \<Rightarrow> string list \<Rightarrow> bool" where
  "isOwnAccount row ownIbans =
     (counterpartIban row \<noteq> [] \<and> counterpartIban row \<in> set ownIbans)"

definition payeeName ::
  "(string \<Rightarrow> string) \<Rightarrow> DkbRawRow \<Rightarrow> number \<Rightarrow> string list \<Rightarrow> string" where
  "payeeName toUpperCase row amountFloat ownIbans =
     (if isOwnAccount row ownIbans then toUpperCase (counterpartIban row)
      else getOpposingName row amountFloat)"

definition importedPayee ::
  "(string \<Rightarrow> string) \<Rightarrow> DkbRawRow \<Rightarrow> number \<Rightarrow> string list \<Rightarrow> string" where
  "importedPayee toUpperCase row amountFloat ownIbans =
     (if counterpartIban row \<noteq> []
      then payeeName toUpperCase row amountFloat ownIbans @ '' ('' @ counterpartIban row @ '')''
      else payeeName toUpperCase row amountFloat ownIbans)"

text \<open>
  One pass of the loop body: \<open>Inr None\<close> when the row is skipped (\<open>continue\<close>), the error
  thrown, or the transaction pushed.
\<close>

definition transformRow ::
  "(string \<Rightarrow> string) \<Rightarrow> DkbRawRow \<Rightarrow> string \<Rightarrow> string list
     \<Rightarrow> error + ActualTransaction option" where
  "transformRow toUpperCase row actualAccountId ownIbans =
     (if or_else (Betrag row) [] = [] \<or> or_else (Buchungsdatum row) [] = [] then Inr None
      else
        (case parseGermanDecimal (or_else (Betrag row) []) of
           Inl e \<Rightarrow> Inl e
         | Inr amountFloat \<Rightarrow>
            (case parseGermanDate (or_else (Buchungsdatum row) []) of
               Inl e \<Rightarrow> Inl e
             | Inr date_str \<Rightarrow>
                Inr (Some
                  \<lparr>account = actualAccountId,
                   date = date_str,
                   amount = amountToInteger amountFloat,
                   payee_name = trim (payeeName toUpperCase row amountFloat ownIbans),
                   imported_payee = trim (importedPayee toUpperCase row amountFloat ownIbans),
                   notes' = or_else (Verwendungszweck row) [],
                   imported_id =
                     generateImportedId date_str (amountToInteger amountFloat)
                       (payeeName toUpperCase row amountFloat ownIbans)
                       (or_else (Verwendungszweck row) []),
                   cleared = True\<rparr>))))"

text \<open>
  The loop over the rows, with the array \<open>transactions\<close> it pushes to. \<open>ownIbans\<close> is always
  given here (the program's default for a call without it is the empty list).
\<close>

fun transform_loop ::
  "(string \<Rightarrow> string) \<Rightarrow> DkbRawRow list \<Rightarrow> string \<Rightarrow> string list
     \<Rightarrow> ActualTransaction list \<Rightarrow> error + ActualTransaction list" where
  "transform_loop toUpperCase [] actualAccountId ownIbans transactions = Inr transactions"
| "transform_loop toUpperCase (row # rows) actualAccountId ownIbans transactions =
     (case transformRow toUpperCase row actualAccountId ownIbans of
        Inl e \<Rightarrow> Inl e
      | Inr None \<Rightarrow> transform_loop toUpperCase rows actualAccountId ownIbans transactions
      | Inr (Some t) \<Rightarrow>
          transform_loop toUpperCase rows actualAccountId ownIbans (transactions @ [t]))"

definition transformToActualTransactions ::
  "(string \<Rightarrow> string) \<Rightarrow> DkbRawRow list \<Rightarrow> string \<Rightarrow> string list
     \<Rightarrow> error + ActualTransaction list" where
  "transformToActualTransactions toUpperCase rows actualAccountId ownIbans =
     transform_loop toUpperCase rows actualAccountId ownIbans []"

text \<open>A row without any column, to write example rows from.\<close>

definition no_columns :: DkbRawRow where
  "no_columns =
     \<lparr>Buchungsdatum = None, Wertstellung = None, Status = None, Zahlungspflichtiger = None,
      Zahlungsempfaenger = None, Verwendungszweck = None, Umsatztyp = None, IBAN = None,
      Betrag = None, Glaeubiger_ID = None, Mandatsreferenz = None, Kundenreferenz = None\<rparr>"

section \<open>Evaluating the definitions\<close>

lemma floor_rat_numeral: "\<lfloor>numeral a / numeral b :: rat\<rfloor> = numeral a div numeral b"
  using floor_divide_of_int_eq [of "numeral a" "numeral b", where ?'a = rat] by simp

lemma ceiling_rat_numeral: "\<lceil>numeral a / numeral b :: rat\<rceil> = - ((- numeral a) div numeral b)"
  using floor_divide_of_int_eq [of "- numeral a" "numeral b", where ?'a = rat]
  by (simp add: ceiling_def)

lemma floor_rat_one: "\<lfloor>1 / numeral b :: rat\<rfloor> = 1 div numeral b"
  using floor_divide_of_int_eq [of 1 "numeral b", where ?'a = rat] by simp

lemma ceiling_rat_one: "\<lceil>1 / numeral b :: rat\<rceil> = - ((- 1) div numeral b)"
  using floor_divide_of_int_eq [of "- 1" "numeral b", where ?'a = rat]
  by (simp add: ceiling_def)

lemma replicate_numeral: "replicate (numeral k) x = x # replicate (pred_numeral k) x"
  by (simp add: numeral_eq_Suc)

lemmas string_eval = trim_def trimStart_def trimEnd_def white_space_def strip_all.simps
  js_length_def utf16_units_def padStart0_def

lemmas number_eval = pow2_def pow10_def binade_def round_half_even_def to_binary64_def
  bitlen.simps floor_rat_numeral ceiling_rat_numeral floor_rat_one ceiling_rat_one

lemmas parse_eval = parseGermanDecimal_def amount_or_error_def parseFloat_def parse_signed_def
  parse_unsigned_def parse_fraction_def parse_decimal_def is_digit_def digits_value_def
  exponent_part_def parseGermanDate_def

lemmas to_string_eval = replicate_numeral positive_to_string_def format_digits_def digits_k_def
  digits_at_def digits_cut_def digits_choose_def decade_def nat_digits.simps digit_char_def

lemmas sha_eval = sha256_hex_def sha256_def sha256_pad_def be_bytes8_def compress_def
  sha256_K_def sha256_H0_def replicate_numeral next_word_def ssig0_def ssig1_def bsig0_def
  bsig1_def sha_ch_def sha_maj_def rotr_def hex32_def hex_digit_def

lemmas row_eval = transformRow_def no_columns_def payeeName_def importedPayee_def
  isOwnAccount_def counterpartIban_def getOpposingName_def amountToInteger_def
  toUpperCase_ascii_def

section \<open>What one pass of the loop and the whole loop return\<close>

lemma transformRow_Some:
  assumes "transformRow up row a own = Inr (Some t)"
  shows "\<exists>amountFloat date_str.
           parseGermanDecimal (or_else (Betrag row) []) = Inr amountFloat \<and>
           parseGermanDate (or_else (Buchungsdatum row) []) = Inr date_str \<and>
           or_else (Betrag row) [] \<noteq> [] \<and> or_else (Buchungsdatum row) [] \<noteq> [] \<and>
           account t = a \<and> date t = date_str \<and> amount t = amountToInteger amountFloat \<and>
           payee_name t = trim (payeeName up row amountFloat own) \<and>
           imported_payee t = trim (importedPayee up row amountFloat own) \<and>
           notes' t = or_else (Verwendungszweck row) [] \<and>
           imported_id t =
             generateImportedId date_str (amountToInteger amountFloat)
               (payeeName up row amountFloat own) (or_else (Verwendungszweck row) []) \<and>
           cleared t"
  using assms unfolding transformRow_def
  by (auto split: if_splits sum.splits)

lemma transform_loop_Inr:
  "transform_loop up rows a own acc = Inr ts \<longleftrightarrow>
     (\<forall>row \<in> set rows. \<not> isl (transformRow up row a own)) \<and>
     ts = acc @ List.map_filter (\<lambda>row. projr (transformRow up row a own)) rows"
proof (induction rows arbitrary: acc)
  case Nil
  show ?case by (auto simp: List.map_filter_def)
next
  case (Cons row rows)
  show ?case
  proof (cases "transformRow up row a own")
    case (Inl e)
    then show ?thesis by simp
  next
    case (Inr r)
    then show ?thesis
      by (cases r) (simp_all add: Cons.IH)
  qed
qed

lemma transform_loop_cong_rows:
  assumes "\<And>row. row \<in> set rows \<Longrightarrow> transformRow up (f row) a own = transformRow up row a own"
  shows "transform_loop up (map f rows) a own acc = transform_loop up rows a own acc"
  using assms by (induction rows arbitrary: acc) (simp_all split: sum.splits option.splits)

lemma transform_loop_filter:
  assumes "\<And>row. row \<in> set rows \<Longrightarrow> \<not> P row \<Longrightarrow> transformRow up row a own = Inr None"
  shows "transform_loop up (filter P rows) a own acc = transform_loop up rows a own acc"
  using assms by (induction rows arbitrary: acc) (simp_all split: sum.splits option.splits)

lemma emitted_from_a_row:
  assumes "transformToActualTransactions up rows a own = Inr ts" and "t \<in> set ts"
  shows "\<exists>row \<in> set rows. transformRow up row a own = Inr (Some t)"
proof -
  from assms(1) have ok: "\<forall>row \<in> set rows. \<not> isl (transformRow up row a own)"
    and ts: "ts = List.map_filter (\<lambda>row. projr (transformRow up row a own)) rows"
    by (simp_all add: transformToActualTransactions_def transform_loop_Inr)
  from assms(2) ts obtain row where row: "row \<in> set rows"
    and t: "projr (transformRow up row a own) = Some t"
    by (auto simp: List.map_filter_def)
  from ok row have "\<not> isl (transformRow up row a own)" by blast
  with t have "transformRow up row a own = Inr (Some t)"
    by (cases "transformRow up row a own") auto
  with row show ?thesis by blast
qed

text \<open>Two example rows and what the loop body makes of them, for any account.\<close>

lemma example_alice_padded:
  "transformRow toUpperCase_ascii
     (no_columns\<lparr>Buchungsdatum := Some ''05.03.24'', Betrag := Some ''-5,00'',
        Zahlungsempfaenger := Some ''Alice ''\<rparr>) a own =
   Inr (Some \<lparr>account = a, date = ''2024-03-05'', amount = Finite True 500,
     payee_name = ''Alice'', imported_payee = ''Alice'', notes' = [],
     imported_id = generateImportedId ''2024-03-05'' (Finite True 500) ''Alice '' [],
     cleared = True\<rparr>)"
  by (simp add: row_eval parse_eval string_eval number_eval)

lemma example_alice:
  "transformRow toUpperCase_ascii
     (no_columns\<lparr>Buchungsdatum := Some ''05.03.24'', Betrag := Some ''-5,00'',
        Zahlungsempfaenger := Some ''Alice''\<rparr>) a own =
   Inr (Some \<lparr>account = a, date = ''2024-03-05'', amount = Finite True 500,
     payee_name = ''Alice'', imported_payee = ''Alice'', notes' = [],
     imported_id = generateImportedId ''2024-03-05'' (Finite True 500) ''Alice'' [],
     cleared = True\<rparr>)"
  by (simp add: row_eval parse_eval string_eval number_eval)

section \<open>The customer reference and the imported id\<close>

lemma transformRow_Kundenreferenz:
  "transformRow up (row\<lparr>Kundenreferenz := k\<rparr>) a own = transformRow up row a own"
  by (simp add: transformRow_def payeeName_def importedPayee_def isOwnAccount_def
      counterpartIban_def getOpposingName_def cong: sum.case_cong if_cong)

text \<open>
  C1. Two rows that differ in the \<open>Kundenreferenz\<close> only give the same result of the loop
  body (the same skip, the same error or the same transaction, so the same
  \<open>imported_id\<close>), and changing the \<open>Kundenreferenz\<close> of any rows of the input changes
  nothing of what \<open>transformToActualTransactions\<close> returns: the fifth argument of the
  call of \<open>generateImportedId\<close> is dropped.
\<close>

theorem kundenreferenz_never_reaches_imported_id:
  "transformRow up (row\<lparr>Kundenreferenz := k\<rparr>) a own = transformRow up row a own \<and>
   transformToActualTransactions up (map (\<lambda>row. row\<lparr>Kundenreferenz := f row\<rparr>) rows) a own =
     transformToActualTransactions up rows a own"
  unfolding transformToActualTransactions_def
  by (simp add: transformRow_Kundenreferenz transform_loop_cong_rows)

section \<open>Reading the export\<close>

text \<open>
  C2, as the program has it. \<open>parseDkbCsv\<close> has no check of its own on the number of
  lines or on the header line: it returns what \<open>parse\<close> returns for the text after the
  first four lines, which is the empty text when the content has at most four lines or
  its fifth line is empty and the last; it fails only where reading the file or
  \<open>parse\<close> fails.
\<close>

theorem parseDkbCsv_fails_only_with_reader_or_parser:
  "(files path = Some content \<longrightarrow>
      parseDkbCsv files parse path = parse (join [CHR 0x0A] (drop 4 (split (CHR 0x0A) content)))) \<and>
   (files path = Some content \<longrightarrow> length (split (CHR 0x0A) content) \<le> 4 \<longrightarrow>
      parseDkbCsv files parse path = parse []) \<and>
   (files path = Some content \<longrightarrow> drop 4 (split (CHR 0x0A) content) = [[]] \<longrightarrow>
      parseDkbCsv files parse path = parse []) \<and>
   (parseDkbCsv files parse path = Inl e \<longrightarrow>
      files path = None \<or>
      (\<exists>content. files path = Some content \<and>
         parse (join [CHR 0x0A] (drop 4 (split (CHR 0x0A) content))) = Inl e))"
  by (auto simp: parseDkbCsv_def split: option.splits)

theorem parseDkbCsv_fails_only_with_reader_or_parser_witness:
  "[''umsatz.csv'' \<mapsto> ''Girokonto\<newline>DE02''] ''umsatz.csv'' = Some ''Girokonto\<newline>DE02'' \<and>
   length (split (CHR 0x0A) ''Girokonto\<newline>DE02'') \<le> 4 \<and>
   parseDkbCsv [''umsatz.csv'' \<mapsto> ''Girokonto\<newline>DE02''] parse_blank_text ''umsatz.csv'' =
     parse_blank_text []"
proof -
  have f: "[''umsatz.csv'' \<mapsto> ''Girokonto\<newline>DE02''] ''umsatz.csv'' = Some ''Girokonto\<newline>DE02''"
    by simp
  have l: "length (split (CHR 0x0A) ''Girokonto\<newline>DE02'') \<le> 4"
    by simp
  have "parseDkbCsv [''umsatz.csv'' \<mapsto> ''Girokonto\<newline>DE02''] parse_blank_text ''umsatz.csv'' =
     parse_blank_text []"
    using f l parseDkbCsv_fails_only_with_reader_or_parser
      [where files = "[''umsatz.csv'' \<mapsto> ''Girokonto\<newline>DE02'']" and path = "''umsatz.csv''"
         and content = "''Girokonto\<newline>DE02''" and parse = parse_blank_text,
       THEN conjunct2, THEN conjunct1]
    by blast
  with f l show ?thesis by blast
qed

text \<open>
  The claim fails for a content of a single line (four lines to skip exceed it) and for
  a content whose fifth line, the header, is empty: with a \<open>parse\<close> that finds no record
  in a text without one, \<open>parseDkbCsv\<close> returns no row and no error.
\<close>

theorem too_few_lines_counterexample:
  "parseDkbCsv [''umsatz.csv'' \<mapsto> ''Girokonto''] parse_blank_text ''umsatz.csv'' = Inr [] \<and>
   parseDkbCsv [''umsatz.csv'' \<mapsto> ''a\<newline>b\<newline>c\<newline>d\<newline>\<newline>'']
     parse_blank_text ''umsatz.csv'' = Inr []"
  by (simp add: parseDkbCsv_def parse_blank_text_def)

section \<open>Amounts\<close>

lemma pow2_pos: "0 < pow2 e"
  by (simp add: pow2_def)

lemma pow10_nonneg: "0 \<le> pow10 e"
  by (simp add: pow10_def)

lemma round_half_even_nonneg: "0 \<le> x \<Longrightarrow> 0 \<le> round_half_even x"
  by (auto simp: round_half_even_def)

lemma to_binary64_cases:
  assumes "0 \<le> q"
  shows "to_binary64 s q = Infinity s \<or> (\<exists>p. 0 \<le> p \<and> to_binary64 s q = Finite s p)"
proof -
  have "0 \<le> of_int (round_half_even (q / pow2 e)) * pow2 e" for e
    using assms pow2_pos [of e]
    by (intro mult_nonneg_nonneg) (simp_all add: round_half_even_nonneg less_imp_le)
  then show ?thesis
    by (auto simp: to_binary64_def)
qed

text \<open>\<open>Math.round\<close> gives \<open>floor (x + 1/2)\<close>: the nearest integer, a tie going up.\<close>

lemma math_round_nearest:
  assumes "0 \<le> p"
  shows "\<exists>m. 0 \<le> m \<and> math_round (Finite s p) = Finite s m \<and>
             (if s then - m else m) = of_int \<lfloor>(if s then - p else p) + 1 / 2\<rfloor>"
proof (cases "of_int \<lfloor>p\<rfloor> = p")
  case True
  then obtain k :: int where k: "p = of_int k" by metis
  have "\<lfloor>- rat_of_int k + 1 / 2\<rfloor> = - k" "\<lfloor>rat_of_int k + 1 / 2\<rfloor> = k"
    by linarith+
  with k assms show ?thesis by auto
next
  case False
  then have pos: "0 < p" using assms by (cases "p = 0") auto
  show ?thesis
  proof (cases s)
    case True
    show ?thesis
    proof (cases "p \<le> 1 / 2")
      case True
      then have "\<lfloor>- p + 1 / 2\<rfloor> = 0" using pos by linarith
      with True \<open>s\<close> False show ?thesis by simp
    next
      case large: False
      have "- rat_of_int \<lceil>p - 1 / 2\<rceil> = of_int \<lfloor>- p + 1 / 2\<rfloor>"
        by (simp add: ceiling_def)
      moreover have "0 \<le> \<lceil>p - 1 / 2\<rceil>" using large by linarith
      ultimately show ?thesis using large \<open>s\<close> False by simp
    qed
  next
    case pos_sign: False
    show ?thesis
    proof (cases "p < 1 / 2")
      case True
      then have "\<lfloor>p + 1 / 2\<rfloor> = 0" using pos by linarith
      with True pos_sign False show ?thesis by simp
    next
      case large: False
      have "0 \<le> \<lfloor>p + 1 / 2\<rfloor>" using pos by linarith
      then show ?thesis using large pos_sign False by simp
    qed
  qed
qed

lemma parseFloat_magnitude:
  "parseFloat str = NaN \<or> (\<exists>s. parseFloat str = Infinity s) \<or>
   (\<exists>s p. 0 \<le> p \<and> parseFloat str = Finite s p)"
proof -
  have d: "parse_decimal neg ip fp r = NaN \<or> (\<exists>s. parse_decimal neg ip fp r = Infinity s) \<or>
      (\<exists>s p. 0 \<le> p \<and> parse_decimal neg ip fp r = Finite s p)" for neg ip fp r
    using to_binary64_cases
      [of "of_nat (digits_value (ip @ fp)) * pow10 (exponent_part r - int (length fp))" neg]
    by (auto simp: parse_decimal_def pow10_nonneg)
  have u: "parse_unsigned neg t = NaN \<or> (\<exists>s. parse_unsigned neg t = Infinity s) \<or>
      (\<exists>s p. 0 \<le> p \<and> parse_unsigned neg t = Finite s p)" for neg t
    using d by (simp add: parse_unsigned_def parse_fraction_def)
  show ?thesis
    using u by (simp add: parseFloat_def parse_signed_def)
qed

lemma parseGermanDecimal_magnitude:
  assumes "parseGermanDecimal str = Inr v"
  shows "(\<exists>s. v = Infinity s) \<or> (\<exists>s p. 0 \<le> p \<and> v = Finite s p)"
  using assms
    parseFloat_magnitude
      [of "replace_first (CHR '','') (CHR ''.'') (filter (\<lambda>c. c \<noteq> CHR ''.'') str)"]
  by (auto simp: parseGermanDecimal_def amount_or_error_def split: if_splits)

lemma amountToInteger_sign:
  assumes "0 \<le> q"
  shows "number_sign (amountToInteger (Finite s q)) = number_sign (Finite s q) \<or>
         number_sign (amountToInteger (Finite s q)) = 0"
proof -
  from assms have n: "0 \<le> q * 100" by simp
  show ?thesis
  proof (cases "q = 0")
    case True
    then show ?thesis by (simp add: amountToInteger_def to_binary64_def)
  next
    case False
    from to_binary64_cases [OF n, of s] show ?thesis
    proof
      assume "to_binary64 s (q * 100) = Infinity s"
      with False show ?thesis by (simp add: amountToInteger_def)
    next
      assume "\<exists>p. 0 \<le> p \<and> to_binary64 s (q * 100) = Finite s p"
      then obtain p where p: "0 \<le> p" "to_binary64 s (q * 100) = Finite s p" by blast
      from math_round_nearest [OF p(1), of s] obtain m
        where "math_round (Finite s p) = Finite s m" by blast
      with p False show ?thesis by (simp add: amountToInteger_def)
    qed
  qed
qed

text \<open>
  C4, as the program has it. \<open>amountToInteger\<close> takes the binary64 product of the value
  and 100 and rounds it as \<open>Math.round\<close> does: to the nearest integer, a tie going
  towards plus infinity (not away from zero), so for a finite product \<open>p\<close> (with its
  sign) the result is \<open>floor (p + 1/2)\<close>; NaN and the infinities stay. The magnitude
  \<open>q\<close> of a Number is not negative.
\<close>

theorem amountToInteger_rounds_ties_up:
  "amountToInteger NaN = NaN \<and>
   amountToInteger (Infinity s) = Infinity s \<and>
   (0 \<le> q \<longrightarrow>
      amountToInteger (Finite s q) = math_round (to_binary64 s (q * 100)) \<and>
      (to_binary64 s (q * 100) = Infinity s \<longrightarrow> amountToInteger (Finite s q) = Infinity s) \<and>
      (to_binary64 s (q * 100) = Finite s p \<longrightarrow>
         (\<exists>m. amountToInteger (Finite s q) = Finite s m \<and>
              (if s then - m else m) = of_int \<lfloor>(if s then - p else p) + 1 / 2\<rfloor>)))"
proof (intro conjI impI)
  show "amountToInteger NaN = NaN" "amountToInteger (Infinity s) = Infinity s"
    by (simp_all add: amountToInteger_def)
next
  show "amountToInteger (Finite s q) = math_round (to_binary64 s (q * 100))"
    by (simp add: amountToInteger_def)
next
  assume "to_binary64 s (q * 100) = Infinity s"
  then show "amountToInteger (Finite s q) = Infinity s"
    by (simp add: amountToInteger_def)
next
  assume q: "0 \<le> q" and p: "to_binary64 s (q * 100) = Finite s p"
  from q have "0 \<le> q * 100" by simp
  from to_binary64_cases [OF this, of s] p have "0 \<le> p" by auto
  from math_round_nearest [OF this, of s] p
  show "\<exists>m. amountToInteger (Finite s q) = Finite s m \<and>
              (if s then - m else m) = of_int \<lfloor>(if s then - p else p) + 1 / 2\<rfloor>"
    by (auto simp: amountToInteger_def)
qed

text \<open>The example of the specification: -12.50 gives -1250.\<close>

theorem amountToInteger_rounds_ties_up_witness:
  "(0::rat) \<le> 25 / 2 \<and> to_binary64 True (25 / 2 * 100) = Finite True 1250 \<and>
   amountToInteger (Finite True (25 / 2)) = Finite True 1250"
proof -
  have p: "to_binary64 True (25 / 2 * 100) = Finite True 1250"
    by (simp add: number_eval)
  from amountToInteger_rounds_ties_up [of True "25 / 2" 1250] p
  show ?thesis by simp
qed

text \<open>
  The claim fails at -0.125, which the amount \<open>-0,125\<close> parses to: the product is
  -12.5 exactly, a tie, and the result is -12, where rounding away from zero gives -13.
\<close>

theorem negative_tie_counterexample:
  "parseGermanDecimal ''-0,125'' = Inr (Finite True (1 / 8)) \<and>
   number_mul (Finite True (1 / 8)) (Finite False 100) = Finite True (25 / 2) \<and>
   amountToInteger (Finite True (1 / 8)) = Finite True 12"
  by (simp add: amountToInteger_def number_eval parse_eval string_eval)

lemma row_amount_sign:
  assumes "transformRow up row a own = Inr (Some t)"
  shows "\<exists>v. parseGermanDecimal (or_else (Betrag row) []) = Inr v \<and>
          amount t = amountToInteger v \<and>
          (number_sign (amount t) = number_sign v \<or> number_sign (amount t) = 0)"
proof -
  from transformRow_Some [OF assms] obtain v
    where v: "parseGermanDecimal (or_else (Betrag row) []) = Inr v" "amount t = amountToInteger v"
    by blast
  from parseGermanDecimal_magnitude [OF v(1)]
  have "number_sign (amountToInteger v) = number_sign v \<or> number_sign (amountToInteger v) = 0"
  proof
    assume "\<exists>s. v = Infinity s"
    then show ?thesis by (auto simp: amountToInteger_def)
  next
    assume "\<exists>s p. 0 \<le> p \<and> v = Finite s p"
    then obtain s p where "0 \<le> p" "v = Finite s p" by blast
    then show ?thesis using amountToInteger_sign [of p s] by simp
  qed
  with v show ?thesis by auto
qed

text \<open>
  C8, as the program has it. The integer amount of an emitted transaction is zero or
  has the sign of the value parsed from the amount field of its row: the two signs are
  never opposite, and a value whose hundredfold rounds to zero gives the amount zero.
\<close>

theorem amount_zero_or_sign_of_parsed_value:
  "(transformRow up row a own = Inr (Some t) \<longrightarrow>
     (\<exists>v. parseGermanDecimal (or_else (Betrag row) []) = Inr v \<and>
          amount t = amountToInteger v \<and>
          (number_sign (amount t) = number_sign v \<or> number_sign (amount t) = 0))) \<and>
   (transformToActualTransactions up rows a own = Inr ts \<longrightarrow>
     (\<forall>t \<in> set ts. \<exists>row \<in> set rows. \<exists>v.
          parseGermanDecimal (or_else (Betrag row) []) = Inr v \<and>
          amount t = amountToInteger v \<and>
          (number_sign (amount t) = number_sign v \<or> number_sign (amount t) = 0)))"
proof (intro conjI impI ballI)
  assume "transformRow up row a own = Inr (Some t)"
  then show "\<exists>v. parseGermanDecimal (or_else (Betrag row) []) = Inr v \<and>
          amount t = amountToInteger v \<and>
          (number_sign (amount t) = number_sign v \<or> number_sign (amount t) = 0)"
    by (rule row_amount_sign)
next
  fix t
  assume "transformToActualTransactions up rows a own = Inr ts" "t \<in> set ts"
  from emitted_from_a_row [OF this] obtain row
    where row: "row \<in> set rows" "transformRow up row a own = Inr (Some t)" by blast
  from row_amount_sign [OF row(2)] row(1)
  show "\<exists>row \<in> set rows. \<exists>v.
          parseGermanDecimal (or_else (Betrag row) []) = Inr v \<and>
          amount t = amountToInteger v \<and>
          (number_sign (amount t) = number_sign v \<or> number_sign (amount t) = 0)"
    by blast
qed

theorem amount_zero_or_sign_of_parsed_value_witness:
  "transformToActualTransactions toUpperCase_ascii
     [no_columns\<lparr>Buchungsdatum := Some ''05.03.24'', Betrag := Some ''-5,00'',
        Zahlungsempfaenger := Some ''Alice''\<rparr>] ''giro'' [] =
   Inr [\<lparr>account = ''giro'', date = ''2024-03-05'', amount = Finite True 500,
     payee_name = ''Alice'', imported_payee = ''Alice'', notes' = [],
     imported_id = generateImportedId ''2024-03-05'' (Finite True 500) ''Alice'' [],
     cleared = True\<rparr>] \<and>
   (\<exists>v. parseGermanDecimal ''-5,00'' = Inr v \<and> Finite True 500 = amountToInteger v \<and>
        (number_sign (Finite True 500) = number_sign v \<or> number_sign (Finite True 500) = 0))"
proof -
  have e: "transformToActualTransactions toUpperCase_ascii
     [no_columns\<lparr>Buchungsdatum := Some ''05.03.24'', Betrag := Some ''-5,00'',
        Zahlungsempfaenger := Some ''Alice''\<rparr>] ''giro'' [] =
   Inr [\<lparr>account = ''giro'', date = ''2024-03-05'', amount = Finite True 500,
     payee_name = ''Alice'', imported_payee = ''Alice'', notes' = [],
     imported_id = generateImportedId ''2024-03-05'' (Finite True 500) ''Alice'' [],
     cleared = True\<rparr>]"
    by (simp add: transformToActualTransactions_def example_alice)
  from amount_zero_or_sign_of_parsed_value
    [where up = toUpperCase_ascii and a = "''giro''" and own = "[]", THEN conjunct2,
     rule_format, OF e]
  have "\<exists>v. parseGermanDecimal ''-5,00'' = Inr v \<and> Finite True 500 = amountToInteger v \<and>
        (number_sign (Finite True 500) = number_sign v \<or> number_sign (Finite True 500) = 0)"
    by (auto simp: no_columns_def)
  with e show ?thesis by blast
qed

text \<open>
  The claim fails at the amount \<open>0,001\<close>: the value parsed is positive, its hundredfold
  rounds to zero, and the integer amount is zero.
\<close>

theorem small_amount_counterexample:
  "parseGermanDecimal ''0,001'' = Inr (Finite False (1152921504606847 / 1152921504606846976)) \<and>
   number_sign (Finite False (1152921504606847 / 1152921504606846976)) = 1 \<and>
   amountToInteger (Finite False (1152921504606847 / 1152921504606846976)) = Finite False 0 \<and>
   number_sign (Finite False 0) = 0"
  by (simp add: amountToInteger_def number_eval parse_eval string_eval)

section \<open>The payee\<close>

text \<open>
  C6, as the program has it. For a row whose trimmed counterpart IBAN is not empty and
  is one of \<open>ownIbans\<close>, the resolved payee name is the upper-cased trimmed IBAN,
  whatever the payer field, the recipient field and the amount are; the transaction
  carries it trimmed.
\<close>

theorem own_account_payee_is_upper_iban:
  "counterpartIban row \<in> set ownIbans \<longrightarrow> counterpartIban row \<noteq> [] \<longrightarrow>
     payeeName up row amountFloat ownIbans = up (counterpartIban row) \<and>
     payeeName up (row\<lparr>Zahlungspflichtiger := p, Zahlungsempfaenger := r\<rparr>) amountFloat ownIbans =
       up (counterpartIban row) \<and>
     (transformRow up row a ownIbans = Inr (Some t) \<longrightarrow>
        payee_name t = trim (up (counterpartIban row)) \<and>
        imported_payee t = trim (up (counterpartIban row) @ '' ('' @ counterpartIban row @ '')''))"
proof (intro impI)
  assume m: "counterpartIban row \<in> set ownIbans" and n: "counterpartIban row \<noteq> []"
  have "payee_name t = trim (up (counterpartIban row)) \<and>
        imported_payee t = trim (up (counterpartIban row) @ '' ('' @ counterpartIban row @ '')'')"
    if "transformRow up row a ownIbans = Inr (Some t)"
    using transformRow_Some [OF that] m n
    by (auto simp: importedPayee_def payeeName_def isOwnAccount_def)
  then show "payeeName up row amountFloat ownIbans = up (counterpartIban row) \<and>
     payeeName up (row\<lparr>Zahlungspflichtiger := p, Zahlungsempfaenger := r\<rparr>) amountFloat ownIbans =
       up (counterpartIban row) \<and>
     (transformRow up row a ownIbans = Inr (Some t) \<longrightarrow>
        payee_name t = trim (up (counterpartIban row)) \<and>
        imported_payee t = trim (up (counterpartIban row) @ '' ('' @ counterpartIban row @ '')''))"
    using m n by (simp add: payeeName_def isOwnAccount_def counterpartIban_def)
qed

theorem own_account_payee_is_upper_iban_witness:
  "counterpartIban (no_columns\<lparr>IBAN := Some '' de12 '', Zahlungspflichtiger := Some ''Alice''\<rparr>)
     \<in> set [''de12''] \<and>
   counterpartIban (no_columns\<lparr>IBAN := Some '' de12 '', Zahlungspflichtiger := Some ''Alice''\<rparr>)
     \<noteq> [] \<and>
   payeeName toUpperCase_ascii
     (no_columns\<lparr>IBAN := Some '' de12 '', Zahlungspflichtiger := Some ''Alice''\<rparr>)
     (Finite False 5) [''de12''] = ''DE12''"
proof -
  have e: "counterpartIban (no_columns\<lparr>IBAN := Some '' de12 '', Zahlungspflichtiger := Some ''Alice''\<rparr>)
     = ''de12''"
    by (simp add: counterpartIban_def no_columns_def string_eval)
  show ?thesis
    using own_account_payee_is_upper_iban
      [where row = "no_columns\<lparr>IBAN := Some '' de12 '', Zahlungspflichtiger := Some ''Alice''\<rparr>"
         and ownIbans = "[''de12'']" and up = toUpperCase_ascii and amountFloat = "Finite False 5"]
    by (simp add: e toUpperCase_ascii_def)
qed

text \<open>
  The claim fails for a row without a counterpart IBAN when the empty string is one of
  \<open>ownIbans\<close>: the trimmed IBAN is a member, and the payee is the payer, not the
  upper-cased IBAN (the empty string).
\<close>

theorem empty_own_iban_counterexample:
  "counterpartIban (no_columns\<lparr>IBAN := Some [], Zahlungspflichtiger := Some ''Alice''\<rparr>)
     \<in> set [[]] \<and>
   payeeName toUpperCase_ascii
     (no_columns\<lparr>IBAN := Some [], Zahlungspflichtiger := Some ''Alice''\<rparr>)
     (Finite False 5) [[]] = ''Alice'' \<and>
   toUpperCase_ascii
     (counterpartIban (no_columns\<lparr>IBAN := Some [], Zahlungspflichtiger := Some ''Alice''\<rparr>)) = []"
  by (simp add: counterpartIban_def no_columns_def string_eval payeeName_def isOwnAccount_def
      getOpposingName_def toUpperCase_ascii_def)

text \<open>
  C7. \<open>getOpposingName\<close> gives the recipient field for a negative amount, and the payer
  field where the recipient field is absent or empty; for an amount that is not
  negative it gives the payer field, and the recipient field where the payer field is
  absent or empty; with both absent or empty it gives the empty string. For a row that
  is not masked as an own account this is the resolved payee name, taken with the
  parsed (not yet rounded) amount, and the transaction carries it trimmed.
\<close>

theorem payee_follows_sign_of_amount:
  "getOpposingName row amountFloat =
     (if less_zero amountFloat
      then (if Zahlungsempfaenger row \<in> {None, Some []}
            then or_else (Zahlungspflichtiger row) []
            else the (Zahlungsempfaenger row))
      else (if Zahlungspflichtiger row \<in> {None, Some []}
            then or_else (Zahlungsempfaenger row) []
            else the (Zahlungspflichtiger row))) \<and>
   (Zahlungsempfaenger row \<in> {None, Some []} \<longrightarrow> Zahlungspflichtiger row \<in> {None, Some []} \<longrightarrow>
      getOpposingName row amountFloat = []) \<and>
   (\<not> isOwnAccount row ownIbans \<longrightarrow>
      payeeName up row amountFloat ownIbans = getOpposingName row amountFloat) \<and>
   (\<not> isOwnAccount row ownIbans \<longrightarrow> transformRow up row a ownIbans = Inr (Some t) \<longrightarrow>
      (\<exists>v. parseGermanDecimal (or_else (Betrag row) []) = Inr v \<and>
           payee_name t = trim (getOpposingName row v)))"
proof -
  have "\<exists>v. parseGermanDecimal (or_else (Betrag row) []) = Inr v \<and>
           payee_name t = trim (getOpposingName row v)"
    if "\<not> isOwnAccount row ownIbans" "transformRow up row a ownIbans = Inr (Some t)"
    using transformRow_Some [OF that(2)] that(1) by (auto simp: payeeName_def)
  moreover have "getOpposingName row amountFloat =
     (if less_zero amountFloat
      then (if Zahlungsempfaenger row \<in> {None, Some []}
            then or_else (Zahlungspflichtiger row) []
            else the (Zahlungsempfaenger row))
      else (if Zahlungspflichtiger row \<in> {None, Some []}
            then or_else (Zahlungsempfaenger row) []
            else the (Zahlungspflichtiger row)))"
    by (cases "Zahlungsempfaenger row"; cases "Zahlungspflichtiger row")
      (auto simp: getOpposingName_def)
  moreover have "getOpposingName row amountFloat = []"
    if "Zahlungsempfaenger row \<in> {None, Some []}" "Zahlungspflichtiger row \<in> {None, Some []}"
    using that by (auto simp: getOpposingName_def)
  ultimately show ?thesis by (simp add: payeeName_def)
qed

text \<open>The examples of the specification: -5.0 with payer Alice only, 5.0 with recipient Bob only.\<close>

theorem payee_follows_sign_of_amount_witness:
  "\<not> isOwnAccount
       (no_columns\<lparr>Zahlungspflichtiger := Some ''Alice'', Zahlungsempfaenger := Some []\<rparr>) [] \<and>
   payeeName toUpperCase_ascii
     (no_columns\<lparr>Zahlungspflichtiger := Some ''Alice'', Zahlungsempfaenger := Some []\<rparr>)
     (Finite True 5) [] = ''Alice'' \<and>
   \<not> isOwnAccount (no_columns\<lparr>Zahlungsempfaenger := Some ''Bob''\<rparr>) [''DE02''] \<and>
   payeeName toUpperCase_ascii
     (no_columns\<lparr>Zahlungsempfaenger := Some ''Bob''\<rparr>)
     (Finite False 5) [''DE02''] = ''Bob''"
  using
    payee_follows_sign_of_amount
      [where row = "no_columns\<lparr>Zahlungspflichtiger := Some ''Alice'', Zahlungsempfaenger := Some []\<rparr>"
         and amountFloat = "Finite True 5" and ownIbans = "[]" and up = toUpperCase_ascii]
    payee_follows_sign_of_amount
      [where row = "no_columns\<lparr>Zahlungsempfaenger := Some ''Bob''\<rparr>"
         and amountFloat = "Finite False 5" and ownIbans = "[''DE02'']" and up = toUpperCase_ascii]
  by (simp add: no_columns_def isOwnAccount_def counterpartIban_def)

text \<open>
  C10. A row whose counterpart IBAN is absent or trims to the empty string is not
  masked, whatever \<open>ownIbans\<close> holds (the empty string too): its payee name is the one
  of \<open>getOpposingName\<close>, and \<open>imported_payee\<close> is the payee name without a suffix.
\<close>

theorem empty_iban_is_never_own_account:
  "counterpartIban row = [] \<longrightarrow>
     \<not> isOwnAccount row ownIbans \<and>
     payeeName up row amountFloat ownIbans = getOpposingName row amountFloat \<and>
     importedPayee up row amountFloat ownIbans = getOpposingName row amountFloat \<and>
     (transformRow up row a ownIbans = Inr (Some t) \<longrightarrow>
        imported_payee t = payee_name t \<and>
        (\<exists>v. parseGermanDecimal (or_else (Betrag row) []) = Inr v \<and>
             payee_name t = trim (getOpposingName row v)))"
proof
  assume e: "counterpartIban row = []"
  have "imported_payee t = payee_name t \<and>
        (\<exists>v. parseGermanDecimal (or_else (Betrag row) []) = Inr v \<and>
             payee_name t = trim (getOpposingName row v))"
    if "transformRow up row a ownIbans = Inr (Some t)"
    using transformRow_Some [OF that] e
    by (auto simp: importedPayee_def payeeName_def isOwnAccount_def)
  then show "\<not> isOwnAccount row ownIbans \<and>
     payeeName up row amountFloat ownIbans = getOpposingName row amountFloat \<and>
     importedPayee up row amountFloat ownIbans = getOpposingName row amountFloat \<and>
     (transformRow up row a ownIbans = Inr (Some t) \<longrightarrow>
        imported_payee t = payee_name t \<and>
        (\<exists>v. parseGermanDecimal (or_else (Betrag row) []) = Inr v \<and>
             payee_name t = trim (getOpposingName row v)))"
    using e by (simp add: importedPayee_def payeeName_def isOwnAccount_def)
qed

theorem empty_iban_is_never_own_account_witness:
  "counterpartIban (no_columns\<lparr>IBAN := Some ''  '', Zahlungspflichtiger := Some ''Alice''\<rparr>) = [] \<and>
   [] \<in> set [[], ''DE02''] \<and>
   \<not> isOwnAccount (no_columns\<lparr>IBAN := Some ''  '', Zahlungspflichtiger := Some ''Alice''\<rparr>)
       [[], ''DE02''] \<and>
   importedPayee toUpperCase_ascii
     (no_columns\<lparr>IBAN := Some ''  '', Zahlungspflichtiger := Some ''Alice''\<rparr>)
     (Finite False 5) [[], ''DE02''] = ''Alice''"
proof -
  have e: "counterpartIban (no_columns\<lparr>IBAN := Some ''  '', Zahlungspflichtiger := Some ''Alice''\<rparr>) = []"
    by (simp add: counterpartIban_def no_columns_def string_eval)
  show ?thesis
    using e empty_iban_is_never_own_account
      [where row = "no_columns\<lparr>IBAN := Some ''  '', Zahlungspflichtiger := Some ''Alice''\<rparr>"
         and ownIbans = "[[], ''DE02'']" and up = toUpperCase_ascii and amountFloat = "Finite False 5"]
    by (simp add: getOpposingName_def no_columns_def)
qed

section \<open>Rows that are skipped\<close>

lemma map_filter_length:
  "length (List.map_filter f xs) = length (filter (\<lambda>x. f x \<noteq> None) xs)"
  by (induction xs) (auto simp: List.map_filter_def)

lemma transformRow_skip:
  "Betrag row \<in> {None, Some []} \<or> Buchungsdatum row \<in> {None, Some []} \<Longrightarrow>
     transformRow up row a own = Inr None"
  by (auto simp: transformRow_def)

lemma transformRow_not_skip:
  assumes "Betrag row \<notin> {None, Some []}" "Buchungsdatum row \<notin> {None, Some []}"
  shows "transformRow up row a own \<noteq> Inr None"
proof -
  from assms have "or_else (Betrag row) [] \<noteq> []" "or_else (Buchungsdatum row) [] \<noteq> []"
    by (cases "Betrag row"; cases "Buchungsdatum row"; auto)+
  then show ?thesis
    by (auto simp: transformRow_def split: sum.splits)
qed

text \<open>
  C9. A row whose amount field or booking date field is absent or empty gives no
  transaction and no error: the loop body skips it, and removing such rows from the
  input changes nothing of what \<open>transformToActualTransactions\<close> returns. A row with
  both fields, whose amount and date parse, gives one transaction; the transactions
  returned are as many as the rows with both fields, and the transformation returns
  (throws no error) when the amount and the date of every such row parse.
\<close>

theorem skipped_rows_and_emitted_rows:
  "(Betrag row \<in> {None, Some []} \<or> Buchungsdatum row \<in> {None, Some []} \<longrightarrow>
      transformRow up row a own = Inr None) \<and>
   (Betrag row = Some b \<longrightarrow> b \<noteq> [] \<longrightarrow> Buchungsdatum row = Some d \<longrightarrow> d \<noteq> [] \<longrightarrow>
    parseGermanDecimal b = Inr v \<longrightarrow> parseGermanDate d = Inr ds \<longrightarrow>
      (\<exists>t. transformRow up row a own = Inr (Some t))) \<and>
   transformToActualTransactions up
     (filter (\<lambda>row. Betrag row \<notin> {None, Some []} \<and> Buchungsdatum row \<notin> {None, Some []}) rows) a own =
     transformToActualTransactions up rows a own \<and>
   (transformToActualTransactions up rows a own = Inr ts \<longrightarrow>
      length ts =
        length (filter (\<lambda>row. Betrag row \<notin> {None, Some []} \<and> Buchungsdatum row \<notin> {None, Some []}) rows)) \<and>
   ((\<forall>row \<in> set rows. Betrag row \<notin> {None, Some []} \<and> Buchungsdatum row \<notin> {None, Some []} \<longrightarrow>
        \<not> isl (parseGermanDecimal (the (Betrag row))) \<and>
        \<not> isl (parseGermanDate (the (Buchungsdatum row)))) \<longrightarrow>
      \<not> isl (transformToActualTransactions up rows a own))"
proof (intro conjI impI)
  assume "Betrag row \<in> {None, Some []} \<or> Buchungsdatum row \<in> {None, Some []}"
  then show "transformRow up row a own = Inr None" by (rule transformRow_skip)
next
  assume "Betrag row = Some b" "b \<noteq> []" "Buchungsdatum row = Some d" "d \<noteq> []"
    "parseGermanDecimal b = Inr v" "parseGermanDate d = Inr ds"
  then show "\<exists>t. transformRow up row a own = Inr (Some t)"
    by (simp add: transformRow_def)
next
  show "transformToActualTransactions up
     (filter (\<lambda>row. Betrag row \<notin> {None, Some []} \<and> Buchungsdatum row \<notin> {None, Some []}) rows) a own =
     transformToActualTransactions up rows a own"
    unfolding transformToActualTransactions_def
    by (rule transform_loop_filter) (auto intro: transformRow_skip)
next
  assume r: "transformToActualTransactions up rows a own = Inr ts"
  let ?P = "\<lambda>row. Betrag row \<notin> {None, Some []} \<and> Buchungsdatum row \<notin> {None, Some []}"
  from r have ok: "\<forall>row \<in> set rows. \<not> isl (transformRow up row a own)"
    and ts: "ts = List.map_filter (\<lambda>row. projr (transformRow up row a own)) rows"
    by (simp_all add: transformToActualTransactions_def transform_loop_Inr)
  have "projr (transformRow up row a own) \<noteq> None \<longleftrightarrow> ?P row" if "row \<in> set rows" for row
  proof (cases "?P row")
    case True
    then have "transformRow up row a own \<noteq> Inr None" by (simp add: transformRow_not_skip)
    moreover from ok that have "\<not> isl (transformRow up row a own)" by blast
    ultimately show ?thesis using True by (cases "transformRow up row a own") auto
  next
    case False
    then have "transformRow up row a own = Inr None" by (intro transformRow_skip) auto
    with False show ?thesis by simp
  qed
  then have "filter (\<lambda>row. projr (transformRow up row a own) \<noteq> None) rows = filter ?P rows"
    by (intro filter_cong) auto
  with ts show "length ts = length (filter ?P rows)"
    by (simp add: map_filter_length)
next
  assume p: "\<forall>row \<in> set rows. Betrag row \<notin> {None, Some []} \<and> Buchungsdatum row \<notin> {None, Some []} \<longrightarrow>
        \<not> isl (parseGermanDecimal (the (Betrag row))) \<and>
        \<not> isl (parseGermanDate (the (Buchungsdatum row)))"
  have "\<not> isl (transformRow up row a own)" if "row \<in> set rows" for row
  proof (cases "Betrag row \<notin> {None, Some []} \<and> Buchungsdatum row \<notin> {None, Some []}")
    case True
    with p that have "\<not> isl (parseGermanDecimal (the (Betrag row)))"
      "\<not> isl (parseGermanDate (the (Buchungsdatum row)))" by blast+
    with True show ?thesis
      by (cases "Betrag row"; cases "Buchungsdatum row")
        (auto simp: transformRow_def split: sum.splits)
  next
    case False
    then have "transformRow up row a own = Inr None" by (intro transformRow_skip) auto
    then show ?thesis by simp
  qed
  then have "\<exists>ts. transformToActualTransactions up rows a own = Inr ts"
    by (simp add: transformToActualTransactions_def transform_loop_Inr)
  then show "\<not> isl (transformToActualTransactions up rows a own)" by auto
qed

text \<open>
  A row with an empty amount field is skipped; a row whose amount and date parse gives
  a transaction.
\<close>

theorem skipped_rows_and_emitted_rows_witness:
  "transformRow toUpperCase_ascii
     (no_columns\<lparr>Buchungsdatum := Some ''05.03.24'', Betrag := Some []\<rparr>) ''giro'' [] = Inr None \<and>
   parseGermanDecimal ''-5,00'' = Inr (Finite True 5) \<and>
   parseGermanDate ''05.03.24'' = Inr ''2024-03-05'' \<and>
   (\<exists>t. transformRow toUpperCase_ascii
      (no_columns\<lparr>Buchungsdatum := Some ''05.03.24'', Betrag := Some ''-5,00''\<rparr>) ''giro'' [] =
      Inr (Some t))"
proof -
  have a: "parseGermanDecimal ''-5,00'' = Inr (Finite True 5)"
    by (simp add: parse_eval string_eval number_eval)
  have d: "parseGermanDate ''05.03.24'' = Inr ''2024-03-05''"
    by (simp add: parse_eval string_eval)
  have "transformRow toUpperCase_ascii
     (no_columns\<lparr>Buchungsdatum := Some ''05.03.24'', Betrag := Some []\<rparr>) ''giro'' [] = Inr None"
    using skipped_rows_and_emitted_rows
      [where row = "no_columns\<lparr>Buchungsdatum := Some ''05.03.24'', Betrag := Some []\<rparr>"
         and up = toUpperCase_ascii and a = "''giro''" and own = "[]", THEN conjunct1]
    by (simp add: no_columns_def)
  moreover have "\<exists>t. transformRow toUpperCase_ascii
      (no_columns\<lparr>Buchungsdatum := Some ''05.03.24'', Betrag := Some ''-5,00''\<rparr>) ''giro'' [] =
      Inr (Some t)"
    using a d skipped_rows_and_emitted_rows
      [where row = "no_columns\<lparr>Buchungsdatum := Some ''05.03.24'', Betrag := Some ''-5,00''\<rparr>"
         and up = toUpperCase_ascii and a = "''giro''" and own = "[]" and b = "''-5,00''"
         and d = "''05.03.24''" and v = "Finite True 5" and ds = "''2024-03-05''",
       THEN conjunct2, THEN conjunct1]
    by (simp add: no_columns_def)
  ultimately show ?thesis using a d by blast
qed

section \<open>The imported id\<close>

lemma round_step_length: "length (round_step s k w) = length s"
  by (induction s k w rule: round_step.induct) simp_all

lemma rounds_length: "length (rounds ks w s) = length s"
  by (induction ks w s rule: rounds.induct) (simp_all add: round_step_length)

lemma compress_length: "length (compress h block) = length h"
  by (simp add: compress_def rounds_length)

lemma foldl_compress_length: "length (foldl compress h bs) = length h"
  by (induction bs arbitrary: h) (simp_all add: compress_length)

lemma sha256_length: "length (sha256 m) = 8"
  by (simp add: sha256_def foldl_compress_length sha256_H0_def)

lemma hex_digit_in: "n < 16 \<Longrightarrow> hex_digit n \<in> set ''0123456789abcdef''"
  unfolding hex_digit_def by (rule nth_mem) simp

lemma hex32_digits: "length (hex32 w) = 8 \<and> set (hex32 w) \<subseteq> set ''0123456789abcdef''"
proof
  show "length (hex32 w) = 8" by (simp add: hex32_def)
  have "hex_digit ((w div 16 ^ i) mod 16) \<in> set ''0123456789abcdef''" for i
    by (rule hex_digit_in) simp
  then show "set (hex32 w) \<subseteq> set ''0123456789abcdef''"
    unfolding hex32_def set_map by (intro image_subsetI)
qed

lemma concat_hex32: "length (concat (map hex32 ws)) = 8 * length ws"
  by (induction ws) (simp_all add: hex32_digits)

lemma sha256_hex_digits:
  "length (sha256_hex s) = 64 \<and> set (sha256_hex s) \<subseteq> set ''0123456789abcdef''"
proof -
  have "set (concat (map hex32 ws)) \<subseteq> set ''0123456789abcdef''" for ws
    using hex32_digits by (induction ws) auto
  then show ?thesis
    by (simp add: sha256_hex_def concat_hex32 sha256_length)
qed

lemma generateImportedId_digits:
  "length (generateImportedId d n p s) = 32 \<and>
   set (generateImportedId d n p s) \<subseteq> set ''0123456789abcdef''"
proof -
  have "set (take 32 xs) \<subseteq> set xs" for xs :: string
    by (rule set_take_subset)
  with sha256_hex_digits
    [of "d @ ''|'' @ number_to_string n @ ''|'' @ p @ ''|'' @ s"]
  show ?thesis unfolding generateImportedId_def by (intro conjI) (simp, blast)
qed

text \<open>The digests of the examples.\<close>

lemma sha256_alice_padded:
  "sha256_hex ''2024-03-05|-500|Alice |'' =
     ''522a1f7d6ad47fd2989c7f4081f0be3b2c6ee64b1dd02491d5c7c5d84380d82f''"
  by (simp add: sha_eval)

lemma sha256_alice:
  "sha256_hex ''2024-03-05|-500|Alice|'' =
     ''8c90d38149519e4d2d5aa2177f819ff261fab6a7ad87b9c9576ed87f0f1a27f0''"
  by (simp add: sha_eval)

lemma sha256_bob_padded:
  "sha256_hex ''2024-03-05|1234| Bob|Miete'' =
     ''187fa285f4dd6f0e23ef108715e5ad4cb7e6829afd5d102b3d19b148827a7021''"
  by (simp add: sha_eval)

lemma sha256_bob:
  "sha256_hex ''2024-03-05|1234|Bob|Miete'' =
     ''26a0c2d1750f7b8a471eb4380826b9929de58f657de37a1cd612675d73f6cac3''"
  by (simp add: sha_eval)

lemma id_alice_padded:
  "generateImportedId ''2024-03-05'' (Finite True 500) ''Alice '' [] =
     ''522a1f7d6ad47fd2989c7f4081f0be3b''"
  by (simp add: generateImportedId_def to_string_eval number_eval sha256_alice_padded)

lemma id_alice:
  "generateImportedId ''2024-03-05'' (Finite True 500) ''Alice'' [] =
     ''8c90d38149519e4d2d5aa2177f819ff2''"
  by (simp add: generateImportedId_def to_string_eval number_eval sha256_alice)

lemma id_bob_padded:
  "generateImportedId ''2024-03-05'' (Finite False 1234) '' Bob'' ''Miete'' =
     ''187fa285f4dd6f0e23ef108715e5ad4c''"
  by (simp add: generateImportedId_def to_string_eval number_eval sha256_bob_padded)

lemma id_bob:
  "generateImportedId ''2024-03-05'' (Finite False 1234) ''Bob'' ''Miete'' =
     ''26a0c2d1750f7b8a471eb4380826b992''"
  by (simp add: generateImportedId_def to_string_eval number_eval sha256_bob)

lemma example_bob_padded:
  "transformRow toUpperCase_ascii
     (no_columns\<lparr>Buchungsdatum := Some ''5.3.2024'', Betrag := Some ''12,34'',
        Zahlungspflichtiger := Some '' Bob'', Verwendungszweck := Some ''Miete''\<rparr>) a own =
   Inr (Some \<lparr>account = a, date = ''2024-03-05'', amount = Finite False 1234,
     payee_name = ''Bob'', imported_payee = ''Bob'', notes' = ''Miete'',
     imported_id = generateImportedId ''2024-03-05'' (Finite False 1234) '' Bob'' ''Miete'',
     cleared = True\<rparr>)"
  by (simp add: row_eval parse_eval string_eval number_eval)

lemma row_imported_id:
  assumes "transformRow up row a own = Inr (Some t)"
  shows "\<exists>v. parseGermanDecimal (or_else (Betrag row) []) = Inr v \<and>
           payee_name t = trim (payeeName up row v own) \<and>
           imported_id t =
             take 32 (sha256_hex
               (date t @ ''|'' @ number_to_string (amount t) @ ''|'' @ payeeName up row v own
                @ ''|'' @ notes' t)) \<and>
           length (imported_id t) = 32 \<and> set (imported_id t) \<subseteq> set ''0123456789abcdef''"
proof -
  from transformRow_Some [OF assms] obtain v where v:
    "parseGermanDecimal (or_else (Betrag row) []) = Inr v"
    "payee_name t = trim (payeeName up row v own)"
    "imported_id t = generateImportedId (date t) (amount t) (payeeName up row v own) (notes' t)"
    by auto
  from v(3) generateImportedId_digits [of "date t" "amount t" "payeeName up row v own" "notes' t"]
  have "length (imported_id t) = 32" "set (imported_id t) \<subseteq> set ''0123456789abcdef''"
    by simp_all
  with v show ?thesis by (auto simp: generateImportedId_def)
qed

text \<open>
  C5, as the program has it. The \<open>imported_id\<close> of an emitted transaction is the first 32
  hexadecimal digits of the SHA-256 digest of its date, the string of its integer
  amount, the resolved payee name of its row as it is before the transaction's
  \<open>payee_name\<close> is trimmed, and its notes, joined by \<open>|\<close>; it has 32 characters, all of
  them hexadecimal digits.
\<close>

theorem imported_id_is_truncated_sha256:
  "(transformRow up row a own = Inr (Some t) \<longrightarrow>
      (\<exists>v. parseGermanDecimal (or_else (Betrag row) []) = Inr v \<and>
           payee_name t = trim (payeeName up row v own) \<and>
           imported_id t =
             take 32 (sha256_hex
               (date t @ ''|'' @ number_to_string (amount t) @ ''|'' @ payeeName up row v own
                @ ''|'' @ notes' t)) \<and>
           length (imported_id t) = 32 \<and> set (imported_id t) \<subseteq> set ''0123456789abcdef'')) \<and>
   (transformToActualTransactions up rows a own = Inr ts \<longrightarrow>
      (\<forall>t \<in> set ts. \<exists>row \<in> set rows. \<exists>v.
           parseGermanDecimal (or_else (Betrag row) []) = Inr v \<and>
           payee_name t = trim (payeeName up row v own) \<and>
           imported_id t =
             take 32 (sha256_hex
               (date t @ ''|'' @ number_to_string (amount t) @ ''|'' @ payeeName up row v own
                @ ''|'' @ notes' t)) \<and>
           length (imported_id t) = 32 \<and> set (imported_id t) \<subseteq> set ''0123456789abcdef''))"
proof (intro conjI impI ballI)
  assume "transformRow up row a own = Inr (Some t)"
  then show "\<exists>v. parseGermanDecimal (or_else (Betrag row) []) = Inr v \<and>
           payee_name t = trim (payeeName up row v own) \<and>
           imported_id t =
             take 32 (sha256_hex
               (date t @ ''|'' @ number_to_string (amount t) @ ''|'' @ payeeName up row v own
                @ ''|'' @ notes' t)) \<and>
           length (imported_id t) = 32 \<and> set (imported_id t) \<subseteq> set ''0123456789abcdef''"
    by (rule row_imported_id)
next
  fix t
  assume "transformToActualTransactions up rows a own = Inr ts" "t \<in> set ts"
  from emitted_from_a_row [OF this] obtain row
    where row: "row \<in> set rows" "transformRow up row a own = Inr (Some t)" by blast
  from row_imported_id [OF row(2)] row(1)
  show "\<exists>row \<in> set rows. \<exists>v.
           parseGermanDecimal (or_else (Betrag row) []) = Inr v \<and>
           payee_name t = trim (payeeName up row v own) \<and>
           imported_id t =
             take 32 (sha256_hex
               (date t @ ''|'' @ number_to_string (amount t) @ ''|'' @ payeeName up row v own
                @ ''|'' @ notes' t)) \<and>
           length (imported_id t) = 32 \<and> set (imported_id t) \<subseteq> set ''0123456789abcdef''"
    by blast
qed

theorem imported_id_is_truncated_sha256_witness:
  "transformRow toUpperCase_ascii
     (no_columns\<lparr>Buchungsdatum := Some ''05.03.24'', Betrag := Some ''-5,00'',
        Zahlungsempfaenger := Some ''Alice''\<rparr>) ''giro'' [] =
   Inr (Some \<lparr>account = ''giro'', date = ''2024-03-05'', amount = Finite True 500,
     payee_name = ''Alice'', imported_payee = ''Alice'', notes' = [],
     imported_id = generateImportedId ''2024-03-05'' (Finite True 500) ''Alice'' [],
     cleared = True\<rparr>) \<and>
   generateImportedId ''2024-03-05'' (Finite True 500) ''Alice'' [] =
     ''8c90d38149519e4d2d5aa2177f819ff2'' \<and>
   (\<exists>v. parseGermanDecimal ''-5,00'' = Inr v \<and>
      generateImportedId ''2024-03-05'' (Finite True 500) ''Alice'' [] =
        take 32 (sha256_hex
          (''2024-03-05'' @ ''|'' @ number_to_string (Finite True 500) @ ''|'' @
           payeeName toUpperCase_ascii
             (no_columns\<lparr>Buchungsdatum := Some ''05.03.24'', Betrag := Some ''-5,00'',
                Zahlungsempfaenger := Some ''Alice''\<rparr>) v [] @ ''|'' @ [])))"
proof -
  note e = example_alice [of "''giro''" "[]"]
  note i = id_alice
  from imported_id_is_truncated_sha256
    [where up = toUpperCase_ascii and a = "''giro''" and own = "[]"
       and row = "no_columns\<lparr>Buchungsdatum := Some ''05.03.24'', Betrag := Some ''-5,00'',
                    Zahlungsempfaenger := Some ''Alice''\<rparr>",
     THEN conjunct1, rule_format, OF e]
  have "\<exists>v. parseGermanDecimal ''-5,00'' = Inr v \<and>
      generateImportedId ''2024-03-05'' (Finite True 500) ''Alice'' [] =
        take 32 (sha256_hex
          (''2024-03-05'' @ ''|'' @ number_to_string (Finite True 500) @ ''|'' @
           payeeName toUpperCase_ascii
             (no_columns\<lparr>Buchungsdatum := Some ''05.03.24'', Betrag := Some ''-5,00'',
                Zahlungsempfaenger := Some ''Alice''\<rparr>) v [] @ ''|'' @ []))"
    by (auto simp: no_columns_def)
  with e i show ?thesis by blast
qed

text \<open>
  The claim fails, read on the fields of the transaction, for a payer with a leading
  space: the transaction has the payee name \<open>Bob\<close>, and its \<open>imported_id\<close> is the digest
  with \<open>| Bob|\<close>, not the one that \<open>generateImportedId\<close> gives for its date, amount, payee
  name and notes.
\<close>

theorem hashed_payee_is_untrimmed_counterexample:
  "transformToActualTransactions toUpperCase_ascii
     [no_columns\<lparr>Buchungsdatum := Some ''5.3.2024'', Betrag := Some ''12,34'',
        Zahlungspflichtiger := Some '' Bob'', Verwendungszweck := Some ''Miete''\<rparr>] ''giro'' [] =
   Inr [\<lparr>account = ''giro'', date = ''2024-03-05'', amount = Finite False 1234,
     payee_name = ''Bob'', imported_payee = ''Bob'', notes' = ''Miete'',
     imported_id = ''187fa285f4dd6f0e23ef108715e5ad4c'', cleared = True\<rparr>] \<and>
   generateImportedId ''2024-03-05'' (Finite False 1234) ''Bob'' ''Miete'' =
     ''26a0c2d1750f7b8a471eb4380826b992''"
  by (simp add: transformToActualTransactions_def example_bob_padded id_bob_padded id_bob)

lemma strict_equal_to_string:
  "strict_equal x y \<Longrightarrow> number_to_string x = number_to_string y"
  by (induction x y rule: strict_equal.induct) auto

lemma rows_imported_id:
  assumes 1: "transformRow up r1 a1 own1 = Inr (Some t1)"
    and 2: "transformRow up r2 a2 own2 = Inr (Some t2)"
  shows "\<exists>v1 v2.
        parseGermanDecimal (or_else (Betrag r1) []) = Inr v1 \<and>
        parseGermanDecimal (or_else (Betrag r2) []) = Inr v2 \<and>
        (date t1 = date t2 \<and> strict_equal (amount t1) (amount t2) \<and> notes' t1 = notes' t2 \<and>
         payeeName up r1 v1 own1 = payeeName up r2 v2 own2 \<longrightarrow>
           imported_id t1 = imported_id t2) \<and>
        (date t1 = date t2 \<and> strict_equal (amount t1) (amount t2) \<and> notes' t1 = notes' t2 \<and>
         payee_name t1 = payee_name t2 \<and>
         trim (payeeName up r1 v1 own1) = payeeName up r1 v1 own1 \<and>
         trim (payeeName up r2 v2 own2) = payeeName up r2 v2 own2 \<longrightarrow>
           imported_id t1 = imported_id t2) \<and>
        (r1 = r2 \<and> own1 = own2 \<longrightarrow> imported_id t1 = imported_id t2)"
proof -
  from transformRow_Some [OF 1] obtain v1 where v1:
    "parseGermanDecimal (or_else (Betrag r1) []) = Inr v1"
    "payee_name t1 = trim (payeeName up r1 v1 own1)"
    "imported_id t1 =
       generateImportedId (date t1) (amount t1) (payeeName up r1 v1 own1) (notes' t1)"
    "parseGermanDate (or_else (Buchungsdatum r1) []) = Inr (date t1)"
    "amount t1 = amountToInteger v1" "notes' t1 = or_else (Verwendungszweck r1) []"
    by auto
  from transformRow_Some [OF 2] obtain v2 where v2:
    "parseGermanDecimal (or_else (Betrag r2) []) = Inr v2"
    "payee_name t2 = trim (payeeName up r2 v2 own2)"
    "imported_id t2 =
       generateImportedId (date t2) (amount t2) (payeeName up r2 v2 own2) (notes' t2)"
    "parseGermanDate (or_else (Buchungsdatum r2) []) = Inr (date t2)"
    "amount t2 = amountToInteger v2" "notes' t2 = or_else (Verwendungszweck r2) []"
    by auto
  have same: "imported_id t1 = imported_id t2" if "r1 = r2" "own1 = own2"
    using that v1 v2 by simp
  show ?thesis
  proof (intro exI conjI impI)
    show "parseGermanDecimal (or_else (Betrag r1) []) = Inr v1" by (rule v1(1))
    show "parseGermanDecimal (or_else (Betrag r2) []) = Inr v2" by (rule v2(1))
  next
    assume "date t1 = date t2 \<and> strict_equal (amount t1) (amount t2) \<and> notes' t1 = notes' t2 \<and>
         payeeName up r1 v1 own1 = payeeName up r2 v2 own2"
    with v1(3) v2(3) strict_equal_to_string [of "amount t1" "amount t2"]
    show "imported_id t1 = imported_id t2" by (simp add: generateImportedId_def)
  next
    assume "date t1 = date t2 \<and> strict_equal (amount t1) (amount t2) \<and> notes' t1 = notes' t2 \<and>
         payee_name t1 = payee_name t2 \<and>
         trim (payeeName up r1 v1 own1) = payeeName up r1 v1 own1 \<and>
         trim (payeeName up r2 v2 own2) = payeeName up r2 v2 own2"
    with v1(2,3) v2(2,3) strict_equal_to_string [of "amount t1" "amount t2"]
    show "imported_id t1 = imported_id t2" by (simp add: generateImportedId_def)
  next
    assume "r1 = r2 \<and> own1 = own2"
    then show "imported_id t1 = imported_id t2" using same by blast
  qed
qed

text \<open>
  C3, as the program has it. The \<open>imported_id\<close> is a function of the date, the integer
  amount, the resolved payee name as it is before trimming, and the notes: two emitted
  transactions, of any rows, accounts, own IBANs and runs, that agree on these (the
  amounts as \<open>===\<close> compares them) have the same \<open>imported_id\<close>. They also have it when they agree on date, amount, \<open>payee_name\<close>
  and notes and trimming changes neither resolved payee name. The same row gives the
  same \<open>imported_id\<close> each time, under any account.
\<close>

theorem imported_id_depends_on_four_values:
  "transformToActualTransactions up rows1 a1 own1 = Inr ts1 \<longrightarrow>
   transformToActualTransactions up rows2 a2 own2 = Inr ts2 \<longrightarrow>
     (\<forall>t1 \<in> set ts1. \<forall>t2 \<in> set ts2. \<exists>r1 \<in> set rows1. \<exists>r2 \<in> set rows2. \<exists>v1 v2.
        transformRow up r1 a1 own1 = Inr (Some t1) \<and>
        transformRow up r2 a2 own2 = Inr (Some t2) \<and>
        parseGermanDecimal (or_else (Betrag r1) []) = Inr v1 \<and>
        parseGermanDecimal (or_else (Betrag r2) []) = Inr v2 \<and>
        (date t1 = date t2 \<and> strict_equal (amount t1) (amount t2) \<and> notes' t1 = notes' t2 \<and>
         payeeName up r1 v1 own1 = payeeName up r2 v2 own2 \<longrightarrow>
           imported_id t1 = imported_id t2) \<and>
        (date t1 = date t2 \<and> strict_equal (amount t1) (amount t2) \<and> notes' t1 = notes' t2 \<and>
         payee_name t1 = payee_name t2 \<and>
         trim (payeeName up r1 v1 own1) = payeeName up r1 v1 own1 \<and>
         trim (payeeName up r2 v2 own2) = payeeName up r2 v2 own2 \<longrightarrow>
           imported_id t1 = imported_id t2) \<and>
        (r1 = r2 \<and> own1 = own2 \<longrightarrow> imported_id t1 = imported_id t2))"
proof (intro impI ballI)
  fix t1 t2
  assume "transformToActualTransactions up rows1 a1 own1 = Inr ts1" "t1 \<in> set ts1"
  from emitted_from_a_row [OF this] obtain r1
    where r1: "r1 \<in> set rows1" "transformRow up r1 a1 own1 = Inr (Some t1)" by blast
  assume "transformToActualTransactions up rows2 a2 own2 = Inr ts2" "t2 \<in> set ts2"
  from emitted_from_a_row [OF this] obtain r2
    where r2: "r2 \<in> set rows2" "transformRow up r2 a2 own2 = Inr (Some t2)" by blast
  from rows_imported_id [OF r1(2) r2(2)] r1 r2
  show "\<exists>r1 \<in> set rows1. \<exists>r2 \<in> set rows2. \<exists>v1 v2.
        transformRow up r1 a1 own1 = Inr (Some t1) \<and>
        transformRow up r2 a2 own2 = Inr (Some t2) \<and>
        parseGermanDecimal (or_else (Betrag r1) []) = Inr v1 \<and>
        parseGermanDecimal (or_else (Betrag r2) []) = Inr v2 \<and>
        (date t1 = date t2 \<and> strict_equal (amount t1) (amount t2) \<and> notes' t1 = notes' t2 \<and>
         payeeName up r1 v1 own1 = payeeName up r2 v2 own2 \<longrightarrow>
           imported_id t1 = imported_id t2) \<and>
        (date t1 = date t2 \<and> strict_equal (amount t1) (amount t2) \<and> notes' t1 = notes' t2 \<and>
         payee_name t1 = payee_name t2 \<and>
         trim (payeeName up r1 v1 own1) = payeeName up r1 v1 own1 \<and>
         trim (payeeName up r2 v2 own2) = payeeName up r2 v2 own2 \<longrightarrow>
           imported_id t1 = imported_id t2) \<and>
        (r1 = r2 \<and> own1 = own2 \<longrightarrow> imported_id t1 = imported_id t2)"
    by blast
qed

text \<open>
  The same row in two runs, for two accounts, gives the same \<open>imported_id\<close>
  (\<open>8c90d38149519e4d2d5aa2177f819ff2\<close>).
\<close>

theorem imported_id_depends_on_four_values_witness:
  "transformToActualTransactions toUpperCase_ascii
     [no_columns\<lparr>Buchungsdatum := Some ''05.03.24'', Betrag := Some ''-5,00'',
        Zahlungsempfaenger := Some ''Alice''\<rparr>] ''giro'' [] =
   Inr [\<lparr>account = ''giro'', date = ''2024-03-05'', amount = Finite True 500,
     payee_name = ''Alice'', imported_payee = ''Alice'', notes' = [],
     imported_id = ''8c90d38149519e4d2d5aa2177f819ff2'', cleared = True\<rparr>] \<and>
   transformToActualTransactions toUpperCase_ascii
     [no_columns\<lparr>Buchungsdatum := Some ''05.03.24'', Betrag := Some ''-5,00'',
        Zahlungsempfaenger := Some ''Alice''\<rparr>] ''tagesgeld'' [] =
   Inr [\<lparr>account = ''tagesgeld'', date = ''2024-03-05'', amount = Finite True 500,
     payee_name = ''Alice'', imported_payee = ''Alice'', notes' = [],
     imported_id = ''8c90d38149519e4d2d5aa2177f819ff2'', cleared = True\<rparr>] \<and>
   (\<exists>v1 v2. parseGermanDecimal ''-5,00'' = Inr v1 \<and> parseGermanDecimal ''-5,00'' = Inr v2)"
proof -
  have e1: "transformToActualTransactions toUpperCase_ascii
     [no_columns\<lparr>Buchungsdatum := Some ''05.03.24'', Betrag := Some ''-5,00'',
        Zahlungsempfaenger := Some ''Alice''\<rparr>] ''giro'' [] =
   Inr [\<lparr>account = ''giro'', date = ''2024-03-05'', amount = Finite True 500,
     payee_name = ''Alice'', imported_payee = ''Alice'', notes' = [],
     imported_id = ''8c90d38149519e4d2d5aa2177f819ff2'', cleared = True\<rparr>]"
    by (simp add: transformToActualTransactions_def example_alice id_alice)
  have e2: "transformToActualTransactions toUpperCase_ascii
     [no_columns\<lparr>Buchungsdatum := Some ''05.03.24'', Betrag := Some ''-5,00'',
        Zahlungsempfaenger := Some ''Alice''\<rparr>] ''tagesgeld'' [] =
   Inr [\<lparr>account = ''tagesgeld'', date = ''2024-03-05'', amount = Finite True 500,
     payee_name = ''Alice'', imported_payee = ''Alice'', notes' = [],
     imported_id = ''8c90d38149519e4d2d5aa2177f819ff2'', cleared = True\<rparr>]"
    by (simp add: transformToActualTransactions_def example_alice id_alice)
  from imported_id_depends_on_four_values [rule_format, OF e1 e2]
  have "\<exists>v1 v2. parseGermanDecimal ''-5,00'' = Inr v1 \<and> parseGermanDecimal ''-5,00'' = Inr v2"
    by (auto simp: no_columns_def)
  with e1 e2 show ?thesis by blast
qed

text \<open>
  The claim fails for two rows whose recipient is \<open>Alice\<close>, once with a trailing space:
  the two transactions agree on date, amount, \<open>payee_name\<close> and notes, and their
  \<open>imported_id\<close> differ.
\<close>

theorem same_fields_different_id_counterexample:
  "transformToActualTransactions toUpperCase_ascii
     [no_columns\<lparr>Buchungsdatum := Some ''05.03.24'', Betrag := Some ''-5,00'',
        Zahlungsempfaenger := Some ''Alice ''\<rparr>] ''giro'' [] =
   Inr [\<lparr>account = ''giro'', date = ''2024-03-05'', amount = Finite True 500,
     payee_name = ''Alice'', imported_payee = ''Alice'', notes' = [],
     imported_id = ''522a1f7d6ad47fd2989c7f4081f0be3b'', cleared = True\<rparr>] \<and>
   transformToActualTransactions toUpperCase_ascii
     [no_columns\<lparr>Buchungsdatum := Some ''05.03.24'', Betrag := Some ''-5,00'',
        Zahlungsempfaenger := Some ''Alice''\<rparr>] ''giro'' [] =
   Inr [\<lparr>account = ''giro'', date = ''2024-03-05'', amount = Finite True 500,
     payee_name = ''Alice'', imported_payee = ''Alice'', notes' = [],
     imported_id = ''8c90d38149519e4d2d5aa2177f819ff2'', cleared = True\<rparr>]"
  by (simp add: transformToActualTransactions_def example_alice example_alice_padded
      id_alice_padded id_alice)

end
